theory Spec2Isabelle
  imports Main "HOL-Library.AList" "HOL-Library.Multiset"
begin

chapter \<open>Model of the command line tool\<close>

section \<open>Values, errors and dictionaries\<close>

text \<open>
  CWL objects are JSON-like Python values: \<open>None\<close>, booleans, integers, strings,
  lists and insertion-ordered dictionaries with string keys.
\<close>

datatype json =
    JNull
  | JBool bool
  | JInt int
  | JStr string
  | JList "json list"
  | JObj "(string \<times> json) list"

type_synonym obj = "(string \<times> json) list"

text \<open>The exceptions the source raises, each carrying its message.\<close>

datatype error =
    WorkflowException string
  | ValidationException string
  | UnsupportedRequirement string
  | ValueError string
  | KeyError string
  | TypeError
  | AttributeError
  | IndexError
  | UnboundLocalError
  | OSError string
  | OtherError string

text \<open>Python dictionary operations on an association list with distinct keys.\<close>

definition has :: "obj \<Rightarrow> string \<Rightarrow> bool" where
  "has d k = (map_of d k \<noteq> None)"

definition dget :: "obj \<Rightarrow> string \<Rightarrow> json option" where
  "dget d k = map_of d k"

definition dset :: "string \<Rightarrow> json \<Rightarrow> obj \<Rightarrow> obj" where
  "dset k v d = AList.update k v d"

definition ddel :: "string \<Rightarrow> obj \<Rightarrow> obj" where
  "ddel k d = AList.delete k d"

text \<open>Python truthiness (\<open>if x:\<close>, \<open>not x\<close>).\<close>

fun truthy :: "json \<Rightarrow> bool" where
  "truthy JNull = False"
| "truthy (JBool b) = b"
| "truthy (JInt i) = (i \<noteq> 0)"
| "truthy (JStr s) = (s \<noteq> [])"
| "truthy (JList xs) = (xs \<noteq> [])"
| "truthy (JObj kvs) = (kvs \<noteq> [])"

text \<open>\<open>s.startswith(p)\<close>.\<close>

definition startswith :: "string \<Rightarrow> string \<Rightarrow> bool" where
  "startswith s p = (take (length p) s = p)"

definition apos :: string where
  "apos = [CHR 0x27]"

section \<open>The host platform and external libraries\<close>

text \<open>
  Functions of the Python standard library and of third-party packages that the
  tool calls. They are parameters of the model: every theorem holds for any
  implementation of them.
\<close>

record env =
  url_scheme :: "string \<Rightarrow> string"  \<comment> \<open>\<open>urllib.parse.urlsplit(s).scheme\<close>\<close>
  file_uri :: "string \<Rightarrow> string"  \<comment> \<open>\<open>schema_salad.ref_resolver.file_uri\<close>\<close>
  uri_file_path :: "string \<Rightarrow> string"  \<comment> \<open>\<open>schema_salad.ref_resolver.uri_file_path\<close>\<close>
  convert_pathsep_to_unix :: "string \<Rightarrow> string"
  os_sep :: string  \<comment> \<open>\<open>os.sep\<close>\<close>
  os_isabs :: "string \<Rightarrow> bool"  \<comment> \<open>\<open>os.path.isabs\<close>\<close>
  os_basename :: "string \<Rightarrow> string"  \<comment> \<open>\<open>os.path.basename\<close>\<close>
  os_dirname :: "string \<Rightarrow> string"  \<comment> \<open>\<open>os.path.dirname\<close>\<close>
  os_join :: "string \<Rightarrow> string \<Rightarrow> string"  \<comment> \<open>\<open>os.path.join\<close>\<close>
  os_splitext :: "string \<Rightarrow> string \<times> string"  \<comment> \<open>\<open>os.path.splitext\<close>\<close>
  py_str :: "json \<Rightarrow> string"  \<comment> \<open>\<open>str(x)\<close> as used by \<open>%s\<close> and \<open>format\<close>\<close>
  src_line :: "error \<Rightarrow> string"
    \<comment> \<open>the message \<open>SourceLine.makeError(str(exc))\<close> builds for an exception raised in its block\<close>
  strcoll :: "string \<Rightarrow> string \<Rightarrow> int"  \<comment> \<open>\<open>locale.strcoll\<close>\<close>
  quote :: "string \<Rightarrow> string"  \<comment> \<open>\<open>shellescape.quote\<close>\<close>
  json_dumps :: "string \<times> string \<Rightarrow> bool \<Rightarrow> json \<Rightarrow> string"
    \<comment> \<open>\<open>json_dumps(x, separators=..., sort_keys=...)\<close>\<close>
  md5_hexdigest :: "string \<Rightarrow> string"  \<comment> \<open>\<open>hashlib.md5(s.encode("utf-8")).hexdigest()\<close>\<close>
  substitute :: "string \<Rightarrow> string \<Rightarrow> string"  \<comment> \<open>\<open>builder.substitute(basename, pattern)\<close>\<close>
  shortname :: "string \<Rightarrow> string"  \<comment> \<open>\<open>process.shortname\<close>\<close>

section \<open>Path mapper\<close>

text \<open>
  Modelled from the spec: the class \<open>PathMapper\<close> (\<open>pathmapper.py\<close>) is not part
  of the sources at hand. The spec gives a path mapping entry as
  \<open>{resolved, target, type, staged}\<close>, the mapper as keyed by location with iteration
  in insertion order, \<open>mapper(location)\<close> as a lookup that fails if the location is
  absent, and \<open>reversemap(target)\<close> as the inverse lookup returning
  \<open>(location, host-path)\<close> or nothing when the target is not staged.
\<close>

record mapper_ent =
  resolved :: string
  target :: string
  ent_type :: string
  staged :: bool

type_synonym pathmapper = "(string \<times> mapper_ent) list"

definition mapper :: "pathmapper \<Rightarrow> string \<Rightarrow> error + mapper_ent" where
  "mapper pm location =
     (case map_of pm location of None \<Rightarrow> Inl (KeyError location) | Some e \<Rightarrow> Inr e)"

definition reversemap :: "pathmapper \<Rightarrow> string \<Rightarrow> (string \<times> string) option" where
  "reversemap pm tgt =
     (case find (\<lambda>(k, v). target v = tgt) pm of
        None \<Rightarrow> None
      | Some (k, v) \<Rightarrow> Some (k, resolved v))"

section \<open>Filesystem access and builder\<close>

text \<open>
  \<open>StdFsAccess\<close> and \<open>Builder\<close> are collaborators outside the sources at hand; the
  tool only calls their operations, which are fields here. An operation that can
  raise returns a sum.
\<close>

record fs_access =
  fs_glob :: "string \<Rightarrow> error + string list"
  fs_join :: "string \<Rightarrow> string \<Rightarrow> string"
  fs_exists :: "string \<Rightarrow> bool"
  fs_isfile :: "string \<Rightarrow> bool"
  fs_isdir :: "string \<Rightarrow> bool"
  fs_size :: "string \<Rightarrow> error + int"
  fs_read_contents :: "string \<Rightarrow> error + string"
    \<comment> \<open>\<open>content_limit_respected_read_bytes(open(loc, "rb")).decode("utf-8")\<close>\<close>
  fs_sha1 :: "string \<Rightarrow> error + string"
    \<comment> \<open>hex SHA-1 of the file, read in chunks of 1 MiB\<close>
  fs_get_listing :: "obj \<Rightarrow> bool \<Rightarrow> error + obj"
    \<comment> \<open>\<open>get_listing(fs_access, rec, recursive)\<close>, returning the updated object\<close>

record builder =
  outdir :: string
  pathmapper :: "pathmapper option"
  files :: "obj list"
  bindings :: "obj list"
  b_fs_access :: fs_access
  generate_arg :: "obj \<Rightarrow> error + string list"
  do_eval :: "json \<Rightarrow> json option \<Rightarrow> error + json"
    \<comment> \<open>\<open>do_eval(ex, context=...)\<close>; the context is \<open>None\<close> when not given\<close>
  loadListing :: "string option"

section \<open>Reverse mapping of output paths\<close>

text \<open>
  \<open>revmap_file(builder, outdir, f)\<close> updates the dictionary \<open>f\<close> in place and returns
  it; the model returns the updated dictionary. \<open>revmap_location\<close> is the chain of
  \<open>if\<close>/\<open>elif\<close> branches that chooses the new location, \<open>revmap_path\<close> the block
  \<open>if "path" in f: ...\<close> with the final \<open>raise\<close> after it.
\<close>

definition revmap_location ::
  "env \<Rightarrow> builder \<Rightarrow> pathmapper \<Rightarrow> string \<Rightarrow> string \<Rightarrow> error + string" where
  "revmap_location ev b pm outd path =
     (let uripath = file_uri ev path;
          revmap_f = reversemap pm path;
          not_writable =
            (case revmap_f of
               None \<Rightarrow> Inr False
             | Some (k, r) \<Rightarrow>
                 (case mapper pm k of
                    Inl e \<Rightarrow> Inl e
                  | Inr ent \<Rightarrow> Inr (\<not> startswith (ent_type ent) ''Writable'')))
      in case not_writable of
           Inl e \<Rightarrow> Inl e
         | Inr True \<Rightarrow> Inr (snd (the revmap_f))
         | Inr False \<Rightarrow>
             if uripath = outd \<or> startswith uripath (outd @ os_sep ev)
                \<or> startswith uripath (outd @ ''/'')
             then Inr (file_uri ev path)
             else if path = outdir b \<or> startswith path (outdir b @ os_sep ev)
                     \<or> startswith path (outdir b @ ''/'')
             then Inr (fs_join (b_fs_access b) outd (drop (length (outdir b) + 1) path))
             else if \<not> os_isabs ev path
             then Inr (fs_join (b_fs_access b) outd path)
             else Inl (WorkflowException
                    (''Output file path '' @ path
                     @ '' must be within designated output directory ('' @ outdir b
                     @ '') or an input file pass through.'')))"

definition revmap_path :: "env \<Rightarrow> builder \<Rightarrow> string \<Rightarrow> obj \<Rightarrow> error + obj" where
  "revmap_path ev b outd f =
     (case dget f ''path'' of
        None \<Rightarrow>
          Inl (WorkflowException
                (''Output File object is missing both '' @ apos @ ''location'' @ apos
                 @ '' and '' @ apos @ ''path'' @ apos @ '' fields: '' @ py_str ev (JObj f)))
      | Some (JStr path) \<Rightarrow>
          (let f1 = ddel ''path'' f;
               f2 = (if \<not> has f1 ''basename''
                     then dset ''basename'' (JStr (os_basename ev path)) f1 else f1)
           in case pathmapper b of
                None \<Rightarrow>
                  Inl (ValueError
                    (''Do not call revmap_file using a builder that doesn'' @ apos
                     @ ''t have a pathmapper.''))
              | Some pm \<Rightarrow>
                  (case revmap_location ev b pm outd path of
                     Inl e \<Rightarrow> Inl e
                   | Inr loc \<Rightarrow> Inr (dset ''location'' (JStr loc) f2)))
      | Some _ \<Rightarrow> Inl TypeError)"

definition revmap_file :: "env \<Rightarrow> builder \<Rightarrow> string \<Rightarrow> obj \<Rightarrow> error + obj" where
  "revmap_file ev b outdir0 f =
     (let outd = (if url_scheme ev outdir0 = [] then file_uri ev outdir0 else outdir0)
      in if has f ''location'' \<and> \<not> has f ''path'' then
           (case dget f ''location'' of
              Some (JStr location) \<Rightarrow>
                if startswith location ''file://''
                then revmap_path ev b outd
                       (dset ''path''
                          (JStr (convert_pathsep_to_unix ev (uri_file_path ev location))) f)
                else Inr f
            | _ \<Rightarrow> Inl AttributeError)
         else revmap_path ev b outd f)"

section \<open>The tool object and the runtime context\<close>

text \<open>
  The fields of \<open>CommandLineTool\<close> (inherited from \<open>Process\<close>) and of
  \<open>RuntimeContext\<close> that the modelled code reads. \<open>tool\<close> is the tool description
  (\<open>self.tool\<close>).
\<close>

record command_line_tool =
  tool :: obj
  requirements :: "obj list"
  hints :: "obj list"
  original_requirements :: "obj list"
  original_hints :: "obj list"

record runtime_context =
  use_container :: bool
  find_default_container :: "(command_line_tool \<Rightarrow> string option) option"
  default_container :: "string option"
  singularity :: bool
  user_space_docker_cmd :: "string option"
  cachedir :: "string option"
  rc_outdir :: "string option"
  docker_outdir :: "string option"
  compute_checksum :: "bool option"

text \<open>
  Modelled from the spec: \<open>Process.get_requirement\<close> (\<open>process.py\<close>) is not part of
  the sources at hand. The spec has the tool inspect a requirement class among its
  requirements and hints, the last occurrence of a class counting and a requirement
  counting before a hint; the second component tells whether the entry is a
  requirement. \<open>find_class\<close> is the loop over one reversed list, reading \<open>item["class"]\<close>.
\<close>

fun find_class :: "string \<Rightarrow> obj list \<Rightarrow> error + obj option" where
  "find_class feature [] = Inr None"
| "find_class feature (item # items) =
     (case dget item ''class'' of
        None \<Rightarrow> Inl (KeyError ''class'')
      | Some c \<Rightarrow> if c = JStr feature then Inr (Some item) else find_class feature items)"

definition get_requirement ::
  "command_line_tool \<Rightarrow> string \<Rightarrow> error + (obj \<times> bool) option" where
  "get_requirement t feature =
     (case find_class feature (rev (requirements t)) of
        Inl e \<Rightarrow> Inl e
      | Inr (Some item) \<Rightarrow> Inr (Some (item, True))
      | Inr None \<Rightarrow>
          (case find_class feature (rev (hints t)) of
             Inl e \<Rightarrow> Inl e
           | Inr (Some item) \<Rightarrow> Inr (Some (item, False))
           | Inr None \<Rightarrow> Inr None))"

section \<open>Runner selection\<close>

datatype job_class =
    CommandLineJob
  | DockerCommandLineJob
  | SingularityCommandLineJob
  | UDockerCommandLineJob

text \<open>
  The final loop of \<open>make_job_runner\<close> over \<open>reversed(self.requirements)\<close>.
\<close>

fun reject_docker :: "obj list \<Rightarrow> error + unit" where
  "reject_docker [] = Inr ()"
| "reject_docker (t # ts) =
     (case dget t ''class'' of
        None \<Rightarrow> Inl (KeyError ''class'')
      | Some c \<Rightarrow>
          if c = JStr ''DockerRequirement''
          then Inl (UnsupportedRequirement
                 (''--no-container, but this CommandLineTool has DockerRequirement under ''
                  @ apos @ ''requirements'' @ apos @ ''.''))
          else reject_docker ts)"

text \<open>
  \<open>make_job_runner\<close> returns the job class together with the tool, whose
  requirements it extends at the front when a default container is found.
\<close>

definition make_job_runner ::
  "command_line_tool \<Rightarrow> runtime_context \<Rightarrow> error + job_class \<times> command_line_tool" where
  "make_job_runner t ctx =
     (case get_requirement t ''DockerRequirement'' of
        Inl e \<Rightarrow> Inl e
      | Inr found \<Rightarrow>
          (let dockerReq0 = map_option fst found;
               injected =
                 (if (dockerReq0 = None \<or> dockerReq0 = Some []) \<and> use_container ctx then
                    (case find_default_container ctx of
                       None \<Rightarrow> None
                     | Some fdc \<Rightarrow>
                         (case fdc t of
                            None \<Rightarrow> None
                          | Some dc \<Rightarrow>
                              Some [(''class'', JStr ''DockerRequirement''),
                                    (''dockerPull'', JStr dc)]))
                  else None);
               t' = (case injected of
                       None \<Rightarrow> t
                     | Some r \<Rightarrow> t\<lparr>requirements := r # requirements t\<rparr>);
               dockerReq = (case injected of None \<Rightarrow> dockerReq0 | Some r \<Rightarrow> Some r)
           in if dockerReq \<noteq> None \<and> use_container ctx then
                (if singularity ctx then Inr (SingularityCommandLineJob, t')
                 else if user_space_docker_cmd ctx \<noteq> None \<and> user_space_docker_cmd ctx \<noteq> Some []
                 then Inr (UDockerCommandLineJob, t')
                 else Inr (DockerCommandLineJob, t'))
              else
                (case reject_docker (rev (requirements t')) of
                   Inl e \<Rightarrow> Inl e
                 | Inr u \<Rightarrow> Inr (CommandLineJob, t'))))"

section \<open>Command line assembly\<close>

text \<open>\<open>sep.join(xs)\<close>.\<close>

fun join_str :: "string \<Rightarrow> string list \<Rightarrow> string" where
  "join_str sep [] = []"
| "join_str sep [x] = x"
| "join_str sep (x # y # ys) = x @ sep @ join_str sep (y # ys)"

text \<open>
  Modelled from the spec: \<open>flatten\<close> (\<open>flatten.py\<close>) is not part of the sources at
  hand. The spec has it flatten the argument lists of all bindings into a plain
  argv; on a list of lists of strings that is their concatenation.
\<close>

definition flatten :: "string list list \<Rightarrow> string list" where
  "flatten xss = concat xss"

text \<open>\<open>list(map(builder.generate_arg, bindings))\<close>: the first exception ends the map.\<close>

fun map_generate_arg :: "builder \<Rightarrow> obj list \<Rightarrow> error + string list list" where
  "map_generate_arg b [] = Inr []"
| "map_generate_arg b (x # xs) =
     (case generate_arg b x of
        Inl e \<Rightarrow> Inl e
      | Inr arg \<Rightarrow>
          (case map_generate_arg b xs of
             Inl e \<Rightarrow> Inl e
           | Inr args \<Rightarrow> Inr (arg # args)))"



section \<open>Output collection: glob patterns\<close>

text \<open>
  Modelled from the spec: \<open>aslist\<close> (\<open>utils.py\<close>) is not part of the sources at hand.
  The spec treats a single value and a list of values alike (each glob expression,
  each resulting pattern, each primary result): a list is taken as it is and any
  other value as the list of that one value.
\<close>

definition aslist :: "json \<Rightarrow> json list" where
  "aslist j = (case j of JList xs \<Rightarrow> xs | _ \<Rightarrow> [j])"

text \<open>
  \<open>with SourceLine(item, key, WorkflowException, debug)\<close>: an exception raised in
  the block is raised again as a \<open>WorkflowException\<close> whose message is built from it.
\<close>

definition with_source_line :: "env \<Rightarrow> error + 'a \<Rightarrow> error + 'a" where
  "with_source_line ev x =
     (case x of Inl e \<Rightarrow> Inl (WorkflowException (src_line ev e)) | Inr v \<Rightarrow> Inr v)"

text \<open>
  \<open>sorted(xs, key=cmp_to_key(cmp))\<close>: a stable sort, here by insertion, where one
  element comes before another when \<open>cmp\<close> is negative.
\<close>

fun insort_cmp :: "('a \<Rightarrow> 'a \<Rightarrow> int) \<Rightarrow> 'a \<Rightarrow> 'a list \<Rightarrow> 'a list" where
  "insort_cmp cmp x [] = [x]"
| "insort_cmp cmp x (y # ys) =
     (if cmp y x < 0 then y # insort_cmp cmp x ys else x # y # ys)"

definition sorted_cmp :: "('a \<Rightarrow> 'a \<Rightarrow> int) \<Rightarrow> 'a list \<Rightarrow> 'a list" where
  "sorted_cmp cmp xs = foldr (insort_cmp cmp) xs []"

text \<open>The first loop of the glob block: evaluate each glob expression and collect
  the patterns.\<close>

fun eval_globs :: "builder \<Rightarrow> json list \<Rightarrow> json list \<Rightarrow> error + json list" where
  "eval_globs b globpatterns [] = Inr globpatterns"
| "eval_globs b globpatterns (gb # gbs) =
     (case do_eval b gb None of
        Inl e \<Rightarrow> Inl e
      | Inr v \<Rightarrow>
          eval_globs b (if truthy v then globpatterns @ aslist v else globpatterns) gbs)"

text \<open>The \<open>if\<close>/\<open>elif\<close> chain at the head of the second loop.\<close>

definition glob_translate :: "builder \<Rightarrow> string \<Rightarrow> string \<Rightarrow> error + string" where
  "glob_translate b outd gb =
     (if startswith gb (outdir b) then Inr (drop (length (outdir b) + 1) gb)
      else if gb = ''.'' then Inr outd
      else if startswith gb ''/''
      then Inl (WorkflowException
                 (''glob patterns must not start with '' @ apos @ ''/'' @ apos))
      else Inr gb)"

text \<open>The descriptor built for one hit \<open>g\<close>, where \<open>prefix0\<close> is \<open>prefix[0]\<close>.\<close>

definition glob_descriptor :: "env \<Rightarrow> builder \<Rightarrow> fs_access \<Rightarrow> string \<Rightarrow> string \<Rightarrow> obj" where
  "glob_descriptor ev b fs prefix0 g =
     [(''location'', JStr g),
      (''path'', JStr (fs_join fs (outdir b) (drop (length prefix0 + 1) g))),
      (''basename'', JStr (os_basename ev g)),
      (''nameroot'', JStr (fst (os_splitext ev (os_basename ev g)))),
      (''nameext'', JStr (snd (os_splitext ev (os_basename ev g)))),
      (''class'', JStr (if fs_isfile fs g then ''File'' else ''Directory''))]"

text \<open>
  The body of the \<open>try\<close>: \<open>prefix[0]\<close> is read once per hit, so an empty \<open>prefix\<close>
  raises \<open>IndexError\<close> only when there is a hit.
\<close>

definition glob_matches ::
  "env \<Rightarrow> builder \<Rightarrow> fs_access \<Rightarrow> string \<Rightarrow> string \<Rightarrow> error + obj list" where
  "glob_matches ev b fs outd gb =
     (case fs_glob fs outd of
        Inl e \<Rightarrow> Inl e
      | Inr prefix \<Rightarrow>
          (case fs_glob fs (fs_join fs outd gb) of
             Inl e \<Rightarrow> Inl e
           | Inr hits \<Rightarrow>
               (case sorted_cmp (strcoll ev) hits of
                  [] \<Rightarrow> Inr []
                | g # gs \<Rightarrow>
                    (case prefix of
                       [] \<Rightarrow> Inl IndexError
                     | prefix0 # ps \<Rightarrow> Inr (map (glob_descriptor ev b fs prefix0) (g # gs))))))"

text \<open>
  The second loop, with the list \<open>r\<close> collected so far. An \<open>OSError\<close> of the \<open>try\<close>
  is logged and the loop goes on; any other exception is raised again.
\<close>

fun glob_loop ::
  "env \<Rightarrow> builder \<Rightarrow> fs_access \<Rightarrow> string \<Rightarrow> obj list \<Rightarrow> json list \<Rightarrow> error + obj list" where
  "glob_loop ev b fs outd r [] = Inr r"
| "glob_loop ev b fs outd r (JStr gb # gbs) =
     (case glob_translate b outd gb of
        Inl e \<Rightarrow> Inl e
      | Inr gb' \<Rightarrow>
          (case glob_matches ev b fs outd gb' of
             Inl (OSError m) \<Rightarrow> glob_loop ev b fs outd r gbs
           | Inl e \<Rightarrow> Inl e
           | Inr ms \<Rightarrow> glob_loop ev b fs outd (r @ ms) gbs))"
| "glob_loop ev b fs outd r (gb # gbs) = Inl AttributeError"

text \<open>The block \<open>with SourceLine(binding, "glob", ...)\<close>: both loops; it returns the
  patterns and the descriptors.\<close>

definition collect_globs ::
  "env \<Rightarrow> builder \<Rightarrow> fs_access \<Rightarrow> string \<Rightarrow> json \<Rightarrow> error + json list \<times> obj list" where
  "collect_globs ev b fs outd glob =
     with_source_line ev
       (case eval_globs b [] (aslist glob) of
          Inl e \<Rightarrow> Inl e
        | Inr globpatterns \<Rightarrow>
            (case glob_loop ev b fs outd [] globpatterns of
               Inl e \<Rightarrow> Inl e
             | Inr r \<Rightarrow> Inr (globpatterns, r)))"

section \<open>Output collection: one port\<close>

text \<open>\<open>p in s\<close> for strings.\<close>

fun contains :: "string \<Rightarrow> string \<Rightarrow> bool" where
  "contains [] p = (p = [])"
| "contains (c # cs) p = (startswith (c # cs) p \<or> contains cs p)"

text \<open>\<open>schema.get("loadListing") or builder.loadListing\<close>.\<close>

definition load_listing :: "builder \<Rightarrow> obj \<Rightarrow> json" where
  "load_listing b schema =
     (let bl = (case loadListing b of None \<Rightarrow> JNull | Some s \<Rightarrow> JStr s)
      in case dget schema ''loadListing'' of
           None \<Rightarrow> bl
         | Some v \<Rightarrow> if truthy v then v else bl)"

text \<open>
  The body of the loop \<open>for files in r\<close>, with \<open>fobj\<close> for the loop variable: \<open>revmap\<close>
  runs on a copy, whose location is then read; the listing, contents, checksum and
  size go to the descriptor itself.
\<close>

definition collect_file ::
  "env \<Rightarrow> builder \<Rightarrow> string \<Rightarrow> fs_access \<Rightarrow> bool \<Rightarrow> obj \<Rightarrow> obj \<Rightarrow> obj \<Rightarrow> error + obj" where
  "collect_file ev b outd fs cc schema binding fobj =
     (case revmap_file ev b outd fobj of
        Inl e \<Rightarrow> Inl e
      | Inr rfile \<Rightarrow>
          (case dget fobj ''class'' of
             None \<Rightarrow> Inl (KeyError ''class'')
           | Some c \<Rightarrow>
               if c = JStr ''Directory'' then
                 (let ll = load_listing b schema
                  in if truthy ll \<and> ll \<noteq> JStr ''no_listing''
                     then fs_get_listing fs fobj (ll = JStr ''deep_listing'')
                     else Inr fobj)
               else
                 (case dget rfile ''location'' of
                    None \<Rightarrow> Inl (KeyError ''location'')
                  | Some (JStr loc) \<Rightarrow>
                      (case (if truthy (case dget binding ''loadContents'' of
                                          None \<Rightarrow> JNull | Some v \<Rightarrow> v)
                             then (case fs_read_contents fs loc of
                                     Inl e \<Rightarrow> Inl e
                                   | Inr s \<Rightarrow> Inr (dset ''contents'' (JStr s) fobj))
                             else Inr fobj) of
                         Inl e \<Rightarrow> Inl e
                       | Inr fobj1 \<Rightarrow>
                           (case (if cc
                                  then (case fs_sha1 fs loc of
                                          Inl e \<Rightarrow> Inl e
                                        | Inr h \<Rightarrow>
                                            Inr (dset ''checksum'' (JStr (''sha1$'' @ h)) fobj1))
                                  else Inr fobj1) of
                              Inl e \<Rightarrow> Inl e
                            | Inr fobj2 \<Rightarrow>
                                (case fs_size fs loc of
                                   Inl e \<Rightarrow> Inl e
                                 | Inr n \<Rightarrow> Inr (dset ''size'' (JInt n) fobj2))))
                  | Some other \<Rightarrow> Inl TypeError)))"

fun collect_files ::
  "env \<Rightarrow> builder \<Rightarrow> string \<Rightarrow> fs_access \<Rightarrow> bool \<Rightarrow> obj \<Rightarrow> obj \<Rightarrow> obj list
   \<Rightarrow> error + obj list" where
  "collect_files ev b outd fs cc schema binding [] = Inr []"
| "collect_files ev b outd fs cc schema binding (fobj # rest) =
     (case collect_file ev b outd fs cc schema binding fobj of
        Inl e \<Rightarrow> Inl e
      | Inr fobj' \<Rightarrow>
          (case collect_files ev b outd fs cc schema binding rest of
             Inl e \<Rightarrow> Inl e
           | Inr rest' \<Rightarrow> Inr (fobj' # rest')))"

text \<open>Cardinality of the port, from \<open>schema["type"]\<close>.\<close>

definition port_optional :: "json \<Rightarrow> bool" where
  "port_optional ty = (case ty of JList tys \<Rightarrow> JStr ''null'' \<in> set tys | _ \<Rightarrow> False)"

definition port_single :: "json \<Rightarrow> bool" where
  "port_single ty =
     (case ty of
        JList tys \<Rightarrow> JStr ''File'' \<in> set tys \<or> JStr ''Directory'' \<in> set tys
      | _ \<Rightarrow> ty = JStr ''File'' \<or> ty = JStr ''Directory'')"

text \<open>The block \<open>if single: ...\<close>; the first \<open>raise\<close> is inside a \<open>SourceLine\<close> block.\<close>

definition single_result :: "env \<Rightarrow> json list \<Rightarrow> bool \<Rightarrow> json \<Rightarrow> error + json" where
  "single_result ev globpatterns optional result =
     (if \<not> truthy result \<and> \<not> optional then
        with_source_line ev
          (Inl (WorkflowException
                 (''Did not find output file with glob pattern: '' @ apos
                  @ py_str ev (JList globpatterns) @ apos)))
      else if \<not> truthy result \<and> optional then Inr result
      else
        (case result of
           JList [] \<Rightarrow> Inl IndexError
         | JList [x] \<Rightarrow> Inr x
         | JList (x # y # zs) \<Rightarrow>
             Inl (WorkflowException ''Multiple matches for output item that is a single file.'')
         | _ \<Rightarrow> Inr result))"

text \<open>
  Secondary files. \<open>secondary_item\<close> is the body of \<open>for sfitem in aslist(sfpath)\<close>,
  returning the primary with its \<open>secondaryFiles\<close> list extended or not.
\<close>

definition append_secondary :: "obj \<Rightarrow> obj \<Rightarrow> error + obj" where
  "append_secondary primary sfitem =
     (case dget primary ''secondaryFiles'' of
        None \<Rightarrow> Inl (KeyError ''secondaryFiles'')
      | Some (JList xs) \<Rightarrow> Inr (dset ''secondaryFiles'' (JList (xs @ [JObj sfitem])) primary)
      | Some other \<Rightarrow> Inl AttributeError)"

definition secondary_item ::
  "env \<Rightarrow> builder \<Rightarrow> string \<Rightarrow> fs_access \<Rightarrow> string \<Rightarrow> json \<Rightarrow> obj \<Rightarrow> json \<Rightarrow> error + obj" where
  "secondary_item ev b outd fs pathprefix sf_required primary sfitem0 =
     (if \<not> truthy sfitem0 then Inr primary
      else
        (case (case sfitem0 of
                 JStr s \<Rightarrow> Inr [(''path'', JStr (pathprefix @ s))]
               | JObj d \<Rightarrow> Inr d
               | _ \<Rightarrow> Inl TypeError) of
           Inl e \<Rightarrow> Inl e
         | Inr sfitem \<Rightarrow>
             (case dget sfitem ''path'' of
                None \<Rightarrow> Inl (KeyError ''path'')
              | Some (JStr path) \<Rightarrow>
                  if \<not> fs_exists fs path \<and> truthy sf_required then
                    Inl (WorkflowException
                          (''Missing required secondary file '' @ apos @ path @ apos))
                  else
                    (case (if has sfitem ''path'' \<and> \<not> has sfitem ''location''
                           then revmap_file ev b outd sfitem else Inr sfitem) of
                       Inl e \<Rightarrow> Inl e
                     | Inr sfitem' \<Rightarrow>
                         (case dget sfitem' ''location'' of
                            None \<Rightarrow> Inl (KeyError ''location'')
                          | Some (JStr loc) \<Rightarrow>
                              if fs_isfile fs loc
                              then append_secondary primary
                                     (dset ''class'' (JStr ''File'') sfitem')
                              else if fs_isdir fs loc
                              then append_secondary primary
                                     (dset ''class'' (JStr ''Directory'') sfitem')
                              else Inr primary
                          | Some other \<Rightarrow> Inl TypeError))
              | Some other \<Rightarrow> Inl TypeError)))"

fun secondary_items ::
  "env \<Rightarrow> builder \<Rightarrow> string \<Rightarrow> fs_access \<Rightarrow> string \<Rightarrow> json \<Rightarrow> obj \<Rightarrow> json list
   \<Rightarrow> error + obj" where
  "secondary_items ev b outd fs pathprefix sf_required primary [] = Inr primary"
| "secondary_items ev b outd fs pathprefix sf_required primary (sfitem # rest) =
     (case secondary_item ev b outd fs pathprefix sf_required primary sfitem of
        Inl e \<Rightarrow> Inl e
      | Inr primary' \<Rightarrow> secondary_items ev b outd fs pathprefix sf_required primary' rest)"

text \<open>The body of \<open>for sf in aslist(schema["secondaryFiles"])\<close>.\<close>

definition secondary_pattern ::
  "env \<Rightarrow> builder \<Rightarrow> string \<Rightarrow> fs_access \<Rightarrow> string \<Rightarrow> obj \<Rightarrow> json \<Rightarrow> error + obj" where
  "secondary_pattern ev b outd fs pathprefix primary sf0 =
     (case sf0 of
        JObj sf \<Rightarrow>
          (case (case dget sf ''required'' of
                   Some ex \<Rightarrow> do_eval b ex (Some (JObj primary))
                 | None \<Rightarrow> Inr (JBool False)) of
             Inl e \<Rightarrow> Inl e
           | Inr sf_required \<Rightarrow>
               (case dget sf ''pattern'' of
                  None \<Rightarrow> Inl (KeyError ''pattern'')
                | Some (JStr pattern) \<Rightarrow>
                    (case (if contains pattern ''$('' \<or> contains pattern ''${''
                           then do_eval b (JStr pattern) (Some (JObj primary))
                           else (case dget primary ''basename'' of
                                   None \<Rightarrow> Inl (KeyError ''basename'')
                                 | Some (JStr basename) \<Rightarrow>
                                     Inr (JStr (substitute ev basename pattern))
                                 | Some other \<Rightarrow> Inl TypeError)) of
                       Inl e \<Rightarrow> Inl e
                     | Inr sfpath \<Rightarrow>
                         secondary_items ev b outd fs pathprefix sf_required primary
                           (aslist sfpath))
                | Some other \<Rightarrow> Inl TypeError))
      | _ \<Rightarrow> Inl TypeError)"

fun secondary_patterns ::
  "env \<Rightarrow> builder \<Rightarrow> string \<Rightarrow> fs_access \<Rightarrow> string \<Rightarrow> obj \<Rightarrow> json list \<Rightarrow> error + obj" where
  "secondary_patterns ev b outd fs pathprefix primary [] = Inr primary"
| "secondary_patterns ev b outd fs pathprefix primary (sf # sfs) =
     (case secondary_pattern ev b outd fs pathprefix primary sf of
        Inl e \<Rightarrow> Inl e
      | Inr primary' \<Rightarrow> secondary_patterns ev b outd fs pathprefix primary' sfs)"

text \<open>
  The body of \<open>for primary in aslist(result)\<close>; \<open>path[0 : path.rindex("/") + 1]\<close> is the
  path up to its last slash, and \<open>rindex\<close> raises \<open>ValueError\<close> when there is none.
\<close>

definition secondary_primary ::
  "env \<Rightarrow> builder \<Rightarrow> string \<Rightarrow> fs_access \<Rightarrow> json \<Rightarrow> json \<Rightarrow> error + json" where
  "secondary_primary ev b outd fs sfs primary0 =
     (case primary0 of
        JObj p \<Rightarrow>
          (let primary = (if has p ''secondaryFiles'' then p
                          else dset ''secondaryFiles'' (JList []) p)
           in case dget primary ''path'' of
                None \<Rightarrow> Inl (KeyError ''path'')
              | Some (JStr path) \<Rightarrow>
                  if CHR ''/'' \<notin> set path then Inl (ValueError ''substring not found'')
                  else
                    (case secondary_patterns ev b outd fs
                            (rev (dropWhile (\<lambda>c. c \<noteq> CHR ''/'') (rev path)))
                            primary (aslist sfs) of
                       Inl e \<Rightarrow> Inl e
                     | Inr primary' \<Rightarrow> Inr (JObj primary'))
              | Some other \<Rightarrow> Inl TypeError)
      | _ \<Rightarrow> Inr primary0)"

fun secondary_primaries ::
  "env \<Rightarrow> builder \<Rightarrow> string \<Rightarrow> fs_access \<Rightarrow> json \<Rightarrow> json list \<Rightarrow> error + json list" where
  "secondary_primaries ev b outd fs sfs [] = Inr []"
| "secondary_primaries ev b outd fs sfs (primary # rest) =
     (case secondary_primary ev b outd fs sfs primary of
        Inl e \<Rightarrow> Inl e
      | Inr primary' \<Rightarrow>
          (case secondary_primaries ev b outd fs sfs rest of
             Inl e \<Rightarrow> Inl e
           | Inr rest' \<Rightarrow> Inr (primary' # rest')))"

text \<open>
  The primaries are updated in place, so \<open>result\<close> holds the updated ones: the list
  of them when it is a list, the single one otherwise.
\<close>

definition updated_result :: "json \<Rightarrow> json list \<Rightarrow> json" where
  "updated_result result primaries =
     (case result of
        JList xs \<Rightarrow> JList primaries
      | _ \<Rightarrow> (case primaries of [p] \<Rightarrow> p | _ \<Rightarrow> result))"

definition secondary_files ::
  "env \<Rightarrow> builder \<Rightarrow> string \<Rightarrow> fs_access \<Rightarrow> json \<Rightarrow> json \<Rightarrow> error + json" where
  "secondary_files ev b outd fs sfs result =
     with_source_line ev
       (case secondary_primaries ev b outd fs sfs (aslist result) of
          Inl e \<Rightarrow> Inl e
        | Inr primaries \<Rightarrow> Inr (updated_result result primaries))"

text \<open>The block \<open>if "format" in schema\<close>.\<close>

fun format_primaries :: "builder \<Rightarrow> json \<Rightarrow> json list \<Rightarrow> error + json list" where
  "format_primaries b fmt [] = Inr []"
| "format_primaries b fmt (primary # rest) =
     (case do_eval b fmt (Some primary) of
        Inl e \<Rightarrow> Inl e
      | Inr v \<Rightarrow>
          (case primary of
             JObj p \<Rightarrow>
               (case format_primaries b fmt rest of
                  Inl e \<Rightarrow> Inl e
                | Inr rest' \<Rightarrow> Inr (JObj (dset ''format'' v p) # rest'))
           | _ \<Rightarrow> Inl TypeError))"

definition apply_format :: "builder \<Rightarrow> json \<Rightarrow> json \<Rightarrow> error + json" where
  "apply_format b fmt result =
     (case format_primaries b fmt (aslist result) of
        Inl e \<Rightarrow> Inl e
      | Inr primaries \<Rightarrow> Inr (updated_result result primaries))"

section \<open>Output collection: final reverse mapping and the whole port\<close>

text \<open>
  Modelled from the spec: \<open>adjustFileObjs\<close> and \<open>visit_class\<close> (\<open>utils.py\<close>) are not
  part of the sources at hand. The spec has the collector remap every File
  descriptor of the result back to host paths; \<open>adjust_revmap\<close> is
  \<open>adjustFileObjs(result, revmap)\<close>: it walks the value, applies \<open>revmap_file\<close> to each
  dictionary whose \<open>class\<close> is \<open>File\<close>, and then walks the values of that dictionary.
  \<open>jsize\<close> counts the lists and dictionaries of a value; it is the measure of the walk.
\<close>

fun jsize :: "json \<Rightarrow> nat" where
  "jsize (JList xs) = Suc (sum_list (map jsize xs))"
| "jsize (JObj kvs) = Suc (sum_list (map (\<lambda>kv. jsize (snd kv)) kvs))"
| "jsize JNull = 0"
| "jsize (JBool b) = 0"
| "jsize (JInt i) = 0"
| "jsize (JStr s) = 0"

definition fields_size :: "obj \<Rightarrow> nat" where
  "fields_size kvs = sum_list (map (\<lambda>kv. jsize (snd kv)) kvs)"

function adjust_revmap :: "env \<Rightarrow> builder \<Rightarrow> string \<Rightarrow> json \<Rightarrow> error + json"
  and adjust_revmap_list :: "env \<Rightarrow> builder \<Rightarrow> string \<Rightarrow> json list \<Rightarrow> error + json list"
  and adjust_revmap_fields :: "env \<Rightarrow> builder \<Rightarrow> string \<Rightarrow> obj \<Rightarrow> error + obj"
where
  "adjust_revmap ev b outd (JObj kvs) =
     (if dget kvs ''class'' = Some (JStr ''File'') then
        (case revmap_file ev b outd kvs of
           Inl e \<Rightarrow> Inl e
         | Inr kvs' \<Rightarrow>
             (case adjust_revmap_fields ev b outd kvs' of
                Inl e \<Rightarrow> Inl e
              | Inr kvs'' \<Rightarrow> Inr (JObj kvs'')))
      else
        (case adjust_revmap_fields ev b outd kvs of
           Inl e \<Rightarrow> Inl e
         | Inr kvs'' \<Rightarrow> Inr (JObj kvs'')))"
| "adjust_revmap ev b outd (JList xs) =
     (case adjust_revmap_list ev b outd xs of
        Inl e \<Rightarrow> Inl e
      | Inr xs' \<Rightarrow> Inr (JList xs'))"
| "adjust_revmap ev b outd JNull = Inr JNull"
| "adjust_revmap ev b outd (JBool v) = Inr (JBool v)"
| "adjust_revmap ev b outd (JInt v) = Inr (JInt v)"
| "adjust_revmap ev b outd (JStr v) = Inr (JStr v)"
| "adjust_revmap_list ev b outd [] = Inr []"
| "adjust_revmap_list ev b outd (x # xs) =
     (case adjust_revmap ev b outd x of
        Inl e \<Rightarrow> Inl e
      | Inr x' \<Rightarrow>
          (case adjust_revmap_list ev b outd xs of
             Inl e \<Rightarrow> Inl e
           | Inr xs' \<Rightarrow> Inr (x' # xs')))"
| "adjust_revmap_fields ev b outd [] = Inr []"
| "adjust_revmap_fields ev b outd ((k, v) # kvs) =
     (case adjust_revmap ev b outd v of
        Inl e \<Rightarrow> Inl e
      | Inr v' \<Rightarrow>
          (case adjust_revmap_fields ev b outd kvs of
             Inl e \<Rightarrow> Inl e
           | Inr kvs' \<Rightarrow> Inr ((k, v') # kvs')))"
  by pat_completeness auto
termination
proof (relation "measures
        [\<lambda>x. case x of
          Inl (ev, b, outd, j) \<Rightarrow> 2 * jsize j
        | Inr (Inl (ev, b, outd, xs)) \<Rightarrow> 2 * sum_list (map jsize xs) + 1
        | Inr (Inr (ev, b, outd, kvs)) \<Rightarrow> 2 * fields_size kvs + 1,
         \<lambda>x. case x of
          Inl (ev, b, outd, j) \<Rightarrow> 0
        | Inr (Inl (ev, b, outd, xs)) \<Rightarrow> length xs
        | Inr (Inr (ev, b, outd, kvs)) \<Rightarrow> length kvs]", goal_cases)
  case 1
  show ?case by simp
next
  case (2 ev b outd kvs kvs')
  have upd: "fields_size (AList.update k (JStr s) d) \<le> fields_size d" for k s d
    by (induction d) (auto simp: fields_size_def)
  have del: "fields_size (AList.delete k d) \<le> fields_size d" for k d
    by (induction d) (auto simp: fields_size_def)
  have loc: "\<And>d d'. revmap_path ev b outd' d = Inr d' \<Longrightarrow> fields_size d' \<le> fields_size d"
    for outd'
  proof -
    fix d d' assume "revmap_path ev b outd' d = Inr d'"
    then obtain l f2 where d': "d' = dset ''location'' (JStr l) f2"
      and f2: "f2 = ddel ''path'' d
               \<or> (\<exists>s. f2 = dset ''basename'' (JStr s) (ddel ''path'' d))"
      by (auto simp: revmap_path_def Let_def
               split: option.splits json.splits sum.splits if_splits)
    from f2 have "fields_size f2 \<le> fields_size d"
      using upd [of "''basename''" _ "ddel ''path'' d"] del [of "''path''" d]
      by (auto simp: dset_def ddel_def intro: order_trans)
    with d' show "fields_size d' \<le> fields_size d"
      using upd [of "''location''" l f2] by (simp add: dset_def)
  qed
  from 2 have "fields_size kvs' \<le> fields_size kvs"
    by (auto simp: revmap_file_def Let_def dset_def
             split: if_splits option.splits json.splits
             dest!: loc intro: order_trans [OF _ upd])
  then show ?case by (simp add: fields_size_def)
qed (auto simp: fields_size_def)

text \<open>
  The block \<open>if "outputBinding" in schema\<close>. It ends in one of the two \<open>return\<close>s
  for an empty result of an optional port, or leaves \<open>result\<close> bound; without an
  output binding \<open>result\<close> is never bound.
\<close>

datatype outcome = Return json | Result json | NoResult

text \<open>The block \<open>if "glob" in binding\<close>: the patterns and the descriptors found.\<close>

definition collect_matches ::
  "env \<Rightarrow> builder \<Rightarrow> string \<Rightarrow> fs_access \<Rightarrow> bool \<Rightarrow> obj \<Rightarrow> obj
   \<Rightarrow> error + json list \<times> obj list" where
  "collect_matches ev b outd fs cc schema binding =
     (case dget binding ''glob'' of
        None \<Rightarrow> Inr ([], [])
      | Some glob \<Rightarrow>
          (case collect_globs ev b fs outd glob of
             Inl e \<Rightarrow> Inl e
           | Inr (globpatterns, r0) \<Rightarrow>
               (case collect_files ev b outd fs cc schema binding r0 of
                  Inl e \<Rightarrow> Inl e
                | Inr r \<Rightarrow> Inr (globpatterns, r))))"

text \<open>The block \<open>if "outputEval" in binding\<close>: the first value of \<open>result\<close>.\<close>

definition eval_result :: "env \<Rightarrow> builder \<Rightarrow> obj \<Rightarrow> obj list \<Rightarrow> error + json" where
  "eval_result ev b binding r =
     (case dget binding ''outputEval'' of
        Some ex \<Rightarrow> with_source_line ev (do_eval b ex (Some (JList (map JObj r))))
      | None \<Rightarrow> Inr (JList (map JObj r)))"

text \<open>
  From \<open>if "secondaryFiles" in schema\<close> to the end of the output binding block:
  secondary files, format, the final reverse mapping, and the \<open>return\<close> for an empty
  result of an optional port, where \<open>result in [0, ""]\<close> also holds for \<open>False\<close>.
\<close>

definition finish_result ::
  "env \<Rightarrow> builder \<Rightarrow> string \<Rightarrow> fs_access \<Rightarrow> obj \<Rightarrow> bool \<Rightarrow> json \<Rightarrow> error + outcome" where
  "finish_result ev b outd fs schema optional result1 =
     (case (case dget schema ''secondaryFiles'' of
              Some sfs \<Rightarrow> secondary_files ev b outd fs sfs result1
            | None \<Rightarrow> Inr result1) of
        Inl e \<Rightarrow> Inl e
      | Inr result2 \<Rightarrow>
          (case (case dget schema ''format'' of
                   Some fmt \<Rightarrow> apply_format b fmt result2
                 | None \<Rightarrow> Inr result2) of
             Inl e \<Rightarrow> Inl e
           | Inr result3 \<Rightarrow>
               (case adjust_revmap ev b outd result3 of
                  Inl e \<Rightarrow> Inl e
                | Inr result \<Rightarrow>
                    if \<not> truthy result \<and> optional then
                      (if result = JInt 0 \<or> result = JBool False \<or> result = JStr []
                       then Inr (Return result)
                       else Inr (Return JNull))
                    else Inr (Result result))))"

definition collect_binding ::
  "env \<Rightarrow> builder \<Rightarrow> string \<Rightarrow> fs_access \<Rightarrow> bool \<Rightarrow> obj \<Rightarrow> error + outcome" where
  "collect_binding ev b outd fs cc schema =
     (case dget schema ''outputBinding'' of
        Some (JObj binding) \<Rightarrow>
          (case collect_matches ev b outd fs cc schema binding of
             Inl e \<Rightarrow> Inl e
           | Inr (globpatterns, r) \<Rightarrow>
               (case dget schema ''type'' of
                  None \<Rightarrow> Inl (KeyError ''type'')
                | Some ty \<Rightarrow>
                    (let optional = port_optional ty; single = port_single ty
                     in case eval_result ev b binding r of
                          Inl e \<Rightarrow> Inl e
                        | Inr result0 \<Rightarrow>
                            (case (if single
                                   then single_result ev globpatterns optional result0
                                   else Inr result0) of
                               Inl e \<Rightarrow> Inl e
                             | Inr result1 \<Rightarrow>
                                 finish_result ev b outd fs schema optional result1))))
      | Some other \<Rightarrow> Inl TypeError
      | None \<Rightarrow> Inr NoResult)"

text \<open>
  \<open>collect_output\<close>, with the loop over the fields of a record type as
  \<open>collect_record\<close>, which holds the dictionary \<open>out\<close> built so far.
\<close>

function collect_output ::
    "env \<Rightarrow> builder \<Rightarrow> string \<Rightarrow> fs_access \<Rightarrow> bool \<Rightarrow> obj \<Rightarrow> error + json"
  and collect_record ::
    "env \<Rightarrow> builder \<Rightarrow> string \<Rightarrow> fs_access \<Rightarrow> bool \<Rightarrow> obj \<Rightarrow> json list \<Rightarrow> error + json"
where
  "collect_output ev b outd fs cc schema =
     (case collect_binding ev b outd fs cc schema of
        Inl e \<Rightarrow> Inl e
      | Inr (Return v) \<Rightarrow> Inr v
      | Inr st \<Rightarrow>
          (let ret = (case st of Result result \<Rightarrow> Inr result | _ \<Rightarrow> Inl UnboundLocalError)
           in case dget schema ''type'' of
                None \<Rightarrow> Inl (KeyError ''type'')
              | Some (JObj ty) \<Rightarrow>
                  (case dget ty ''type'' of
                     None \<Rightarrow> Inl (KeyError ''type'')
                   | Some k \<Rightarrow>
                       if k = JStr ''record'' then
                         (case dget ty ''fields'' of
                            None \<Rightarrow> Inl (KeyError ''fields'')
                          | Some (JList flds) \<Rightarrow> collect_record ev b outd fs cc [] flds
                          | Some other \<Rightarrow> Inl TypeError)
                       else ret)
              | Some other \<Rightarrow> ret))"
| "collect_record ev b outd fs cc out [] = Inr (JObj out)"
| "collect_record ev b outd fs cc out (field # rest) =
     (case field of
        JObj fschema \<Rightarrow>
          (case collect_output ev b outd fs cc fschema of
             Inl e \<Rightarrow> Inl e
           | Inr v \<Rightarrow>
               (case dget fschema ''name'' of
                  None \<Rightarrow> Inl (KeyError ''name'')
                | Some (JStr name) \<Rightarrow>
                    collect_record ev b outd fs cc (dset (shortname ev name) v out) rest
                | Some other \<Rightarrow> Inl TypeError))
      | _ \<Rightarrow> Inl TypeError)"
  by pat_completeness auto
termination
proof -
  have sz: "map_of kvs key = Some v \<Longrightarrow> size v < size (JObj kvs)" for kvs key v
    by (induction kvs) (auto split: if_splits)
  have step: "2 * size (JList flds) < 2 * size (JObj schema) + 1"
    if "dget schema ''type'' = Some (JObj ty)" and "dget ty ''fields'' = Some (JList flds)"
    for schema ty flds
  proof -
    from that have "size (JList flds) < size (JObj ty)" "size (JObj ty) < size (JObj schema)"
      by (auto simp: dget_def dest!: sz)
    then show ?thesis by simp
  qed
  show ?thesis
  proof (relation "measure (\<lambda>x. case x of
          Inl (ev, b, outd, fs, cc, schema) \<Rightarrow> 2 * size (JObj schema) + 1
        | Inr (ev, b, outd, fs, cc, out, flds) \<Rightarrow> 2 * size (JList flds))")
  qed (auto dest: step)
qed

section \<open>The job cache\<close>

text \<open>
  \<open>d.get(k)\<close>: the value, or \<open>None\<close> when the key is absent.
\<close>

definition pget :: "obj \<Rightarrow> string \<Rightarrow> json" where
  "pget d k = (case dget d k of None \<Rightarrow> JNull | Some v \<Rightarrow> v)"

text \<open>\<open>calc_checksum\<close>, the local function of \<open>job\<close>, over \<open>cachebuilder.files\<close>.\<close>

fun calc_checksum :: "obj list \<Rightarrow> string \<Rightarrow> json" where
  "calc_checksum [] location = JNull"
| "calc_checksum (e # es) location =
     (if has e ''location'' \<and> dget e ''location'' = Some (JStr location)
         \<and> has e ''checksum'' \<and> dget e ''checksum'' \<noteq> Some (JStr ''sha1$hash'')
      then pget e ''checksum''
      else calc_checksum es location)"

text \<open>
  The loop over \<open>cachebuilder.pathmapper.items()\<close>, with the dictionary \<open>keydict\<close>
  built so far. \<open>stat\<close> is \<open>os.stat\<close>, giving \<open>st_size\<close> and \<open>int(st_mtime * 1000)\<close>
  or raising.
\<close>

fun key_files ::
  "(string \<Rightarrow> error + int \<times> int) \<Rightarrow> obj list \<Rightarrow> obj \<Rightarrow> (string \<times> mapper_ent) list
   \<Rightarrow> error + obj" where
  "key_files stat fls keydict [] = Inr keydict"
| "key_files stat fls keydict ((location, fobj) # rest) =
     (if ent_type fobj = ''File'' then
        (let checksum = calc_checksum fls location
         in case stat (resolved fobj) of
              Inl e \<Rightarrow> Inl e
            | Inr (st_size, st_mtime_ms) \<Rightarrow>
                key_files stat fls
                  (dset (resolved fobj)
                     (JList [JInt st_size,
                             if checksum \<noteq> JNull then checksum else JInt st_mtime_ms])
                     keydict)
                  rest)
      else key_files stat fls keydict rest)"

definition interesting :: "string list" where
  "interesting =
     [''DockerRequirement'', ''EnvVarRequirement'', ''InitialWorkDirRequirement'',
      ''ShellCommandRequirement'', ''NetworkAccess'']"

text \<open>The loop \<open>for r in reversed(rh)\<close>, over the list already reversed.\<close>

fun key_requirements :: "obj \<Rightarrow> obj list \<Rightarrow> error + obj" where
  "key_requirements keydict [] = Inr keydict"
| "key_requirements keydict (r # rs) =
     (case dget r ''class'' of
        None \<Rightarrow> Inl (KeyError ''class'')
      | Some (JStr cls) \<Rightarrow>
          key_requirements
            (if cls \<in> set interesting \<and> \<not> has keydict cls then dset cls (JObj r) keydict
             else keydict) rs
      | Some (JList xs) \<Rightarrow> Inl TypeError
      | Some (JObj d) \<Rightarrow> Inl TypeError
      | Some other \<Rightarrow> key_requirements keydict rs)"

text \<open>The loop \<open>for shortcut in ["stdin", "stdout", "stderr"]\<close>.\<close>

fun key_shortcuts :: "obj \<Rightarrow> obj \<Rightarrow> string list \<Rightarrow> obj" where
  "key_shortcuts tool_d keydict [] = keydict"
| "key_shortcuts tool_d keydict (shortcut # rest) =
     key_shortcuts tool_d
       (case dget tool_d shortcut of
          Some v \<Rightarrow> dset shortcut v keydict
        | None \<Rightarrow> keydict) rest"

text \<open>
  The command line that is hashed: with a container image, \<open>docker run image\<close> is
  put in front of it.
\<close>

definition key_cmdline ::
  "command_line_tool \<Rightarrow> runtime_context \<Rightarrow> builder \<Rightarrow> error + json list" where
  "key_cmdline t ctx cachebuilder =
     (case map_generate_arg cachebuilder (bindings cachebuilder) of
        Inl e \<Rightarrow> Inl e
      | Inr args \<Rightarrow>
          (case get_requirement t ''DockerRequirement'' of
             Inl e \<Rightarrow> Inl e
           | Inr found \<Rightarrow>
               (let cmdline = flatten args;
                    dockerimg =
                      (case found of
                         Some (docker_req, is_req) \<Rightarrow>
                           if use_container ctx then
                             (if truthy (pget docker_req ''dockerImageId'')
                              then pget docker_req ''dockerImageId''
                              else pget docker_req ''dockerPull'')
                           else JNull
                       | None \<Rightarrow>
                           (case default_container ctx of
                              Some dc \<Rightarrow> if use_container ctx then JStr dc else JNull
                            | None \<Rightarrow> JNull))
                in if dockerimg \<noteq> JNull
                   then Inr ([JStr ''docker'', JStr ''run'', dockerimg] @ map JStr cmdline)
                   else Inr (map JStr cmdline))))"

text \<open>\<open>keydict\<close> as it stands when it is serialized.\<close>

definition cache_keydict ::
  "(string \<Rightarrow> error + int \<times> int) \<Rightarrow> command_line_tool \<Rightarrow> runtime_context \<Rightarrow> builder
   \<Rightarrow> error + obj" where
  "cache_keydict stat t ctx cachebuilder =
     (case key_cmdline t ctx cachebuilder of
        Inl e \<Rightarrow> Inl e
      | Inr cmdline \<Rightarrow>
          (let keydict = key_shortcuts (tool t) [(''cmdline'', JList cmdline)]
                           [''stdin'', ''stdout'', ''stderr'']
           in case pathmapper cachebuilder of
                None \<Rightarrow> Inl AttributeError
              | Some pm \<Rightarrow>
                  (case key_files stat (files cachebuilder) keydict pm of
                     Inl e \<Rightarrow> Inl e
                   | Inr keydict' \<Rightarrow>
                       (case key_requirements keydict' (rev (original_requirements t)) of
                          Inl e \<Rightarrow> Inl e
                        | Inr keydict'' \<Rightarrow>
                            key_requirements keydict'' (rev (original_hints t))))))"

definition cachekey ::
  "env \<Rightarrow> (string \<Rightarrow> error + int \<times> int) \<Rightarrow> command_line_tool \<Rightarrow> runtime_context \<Rightarrow> builder
   \<Rightarrow> error + string" where
  "cachekey ev stat t ctx cachebuilder =
     (case cache_keydict stat t ctx cachebuilder of
        Inl e \<Rightarrow> Inl e
      | Inr keydict \<Rightarrow>
          Inr (md5_hexdigest ev (json_dumps ev ('','', '':'') True (JObj keydict))))"

text \<open>
  The cache directory as this process sees it: the directories, the status files
  with their contents, and the locks this process holds on them.

  Modelled from the spec: \<open>shared_file_lock\<close> and \<open>upgrade_lock\<close> (\<open>utils.py\<close>) are
  not part of the sources at hand. The spec has the first acquire a shared
  advisory lock on the status file and the second upgrade it to an exclusive one.
\<close>

datatype lock_mode = Shared | Exclusive

record cache_state =
  cs_dirs :: "string list"
  cs_files :: "(string \<times> string) list"
  cs_locks :: "(string \<times> lock_mode) list"

text \<open>
  An output callback is a function of the outputs and the process status. It is
  either one given by the caller, known by its name here, or
  \<open>partial(update_status_output_callback, output_callbacks, jobcachelock)\<close>, which
  writes the status to the lock file, closes it and calls the one it wraps.
\<close>

datatype callback = Callback string | UpdateStatus "callback option" string

datatype event = Invoked string json string

fun run_callback ::
  "callback \<Rightarrow> json \<Rightarrow> string \<Rightarrow> cache_state \<Rightarrow> error + event list \<times> cache_state" where
  "run_callback (Callback name) outputs processStatus st =
     Inr ([Invoked name outputs processStatus], st)"
| "run_callback (UpdateStatus output_callbacks jobcachelock) outputs processStatus st =
     (let st' = st\<lparr>cs_files := AList.update jobcachelock processStatus (cs_files st),
                    cs_locks := AList.delete jobcachelock (cs_locks st)\<rparr>
      in case output_callbacks of
           None \<Rightarrow> Inl TypeError
         | Some cb \<Rightarrow> run_callback cb outputs processStatus st')"

record callback_job =
  cj_job :: command_line_tool
  cj_output_callback :: "callback option"
  cj_cachebuilder :: builder
  cj_outdir :: string

text \<open>
  Modelled from the spec: \<open>getdefault\<close> (\<open>context.py\<close>) is not part of the sources at
  hand. The spec has the compute-checksum flag default to true: the value when
  there is one, the default otherwise.
\<close>

definition getdefault :: "'a option \<Rightarrow> 'a \<Rightarrow> 'a" where
  "getdefault val dflt = (case val of None \<Rightarrow> dflt | Some v \<Rightarrow> v)"

text \<open>
  \<open>CallbackJob.run\<close>. The collector \<open>collect_output_ports\<close> is the argument
  \<open>collect\<close>, called with the ports, the builder, the output directory and a fourth
  positional argument, which is where the source passes the checksum flag.
\<close>

definition callback_job_run ::
  "(json \<Rightarrow> builder \<Rightarrow> string \<Rightarrow> json \<Rightarrow> error + json) \<Rightarrow> callback_job \<Rightarrow> runtime_context
   \<Rightarrow> cache_state \<Rightarrow> error + event list \<times> cache_state" where
  "callback_job_run collect cj ctx st =
     (case cj_output_callback cj of
        None \<Rightarrow> Inr ([], st)
      | Some cb \<Rightarrow>
          (case dget (tool (cj_job cj)) ''outputs'' of
             None \<Rightarrow> Inl (KeyError ''outputs'')
           | Some ports \<Rightarrow>
               (case collect ports (cj_cachebuilder cj) (cj_outdir cj)
                       (JBool (getdefault (compute_checksum ctx) True)) of
                  Inl e \<Rightarrow> Inl e
                | Inr outputs \<Rightarrow> run_callback cb outputs ''success'' st)))"

text \<open>
  The cache lookup of \<open>job\<close>, from \<open>jobcache = os.path.join(...)\<close> on. Opening the
  status file for appending creates it empty when its directory exists and raises
  otherwise. On a hit the generator yields the \<open>CallbackJob\<close> and returns; on a miss
  control goes on to the construction of the real job with the output directory
  and the callback replaced.
\<close>

datatype cache_outcome =
    CacheHit callback_job
  | CacheMiss runtime_context callback

definition cache_lookup ::
  "env \<Rightarrow> command_line_tool \<Rightarrow> runtime_context \<Rightarrow> callback option \<Rightarrow> builder
   \<Rightarrow> (obj \<times> bool) option \<Rightarrow> string \<Rightarrow> string \<Rightarrow> string \<Rightarrow> cache_state
   \<Rightarrow> error + cache_outcome \<times> cache_state" where
  "cache_lookup ev t ctx output_callbacks cachebuilder docker_req cdir ckey random_outdir st =
     (let jobcache = os_join ev cdir ckey;
          jobcachepending = jobcache @ ''.status''
      in case (case map_of (cs_files st) jobcachepending of
                 Some content \<Rightarrow> Inr (st, content)
               | None \<Rightarrow>
                   if os_dirname ev jobcachepending \<in> set (cs_dirs st)
                   then Inr (st\<lparr>cs_files := AList.update jobcachepending [] (cs_files st)\<rparr>, [])
                   else Inl (OSError jobcachepending)) of
           Inl e \<Rightarrow> Inl e
         | Inr (st1, jobstatus) \<Rightarrow>
             (let st2 = st1\<lparr>cs_locks := AList.update jobcachepending Shared (cs_locks st1)\<rparr>
              in if jobcache \<in> set (cs_dirs st2) \<and> jobstatus = ''success'' then
                   Inr (CacheHit
                          \<lparr>cj_job = t,
                           cj_output_callback = output_callbacks,
                           cj_cachebuilder =
                             cachebuilder\<lparr>outdir :=
                               (if docker_req \<noteq> None \<and> map_option fst docker_req \<noteq> Some []
                                   \<and> use_container ctx
                                then (case docker_outdir ctx of
                                        Some d \<Rightarrow> if d \<noteq> [] then d else random_outdir
                                      | None \<Rightarrow> random_outdir)
                                else jobcache)\<rparr>,
                           cj_outdir = jobcache\<rparr>,
                        st2)
                 else
                   Inr (CacheMiss
                          (ctx\<lparr>rc_outdir := Some jobcache\<rparr>)
                          (UpdateStatus output_callbacks jobcachepending),
                        st2\<lparr>cs_locks := AList.update jobcachepending Exclusive (cs_locks st2),
                            cs_dirs :=
                              filter (\<lambda>d. d \<noteq> jobcache \<and> \<not> startswith d (jobcache @ ''/''))
                                (cs_dirs st2) @ [jobcache]\<rparr>)))"

text \<open>
  The generator \<open>job\<close>: what it yields. \<open>init_cachebuilder\<close> stands for the
  construction of the cache builder (\<open>_init_job\<close> on the cache context, its path
  mapper and \<open>check_adjust\<close>), and \<open>real_job\<close> for everything from
  \<open>builder = self._init_job(job_order, runtimeContext)\<close> to the final \<open>yield j\<close>, of
  which \<open>make_job_runner\<close> and \<open>job_command_line\<close> above are parts.
\<close>

datatype 'j yielded = YieldCallbackJob callback_job | YieldJob 'j

definition job ::
  "env \<Rightarrow> (string \<Rightarrow> error + int \<times> int) \<Rightarrow> command_line_tool \<Rightarrow> callback option
   \<Rightarrow> runtime_context \<Rightarrow> (runtime_context \<Rightarrow> error + builder) \<Rightarrow> string
   \<Rightarrow> (runtime_context \<Rightarrow> callback option \<Rightarrow> cache_state \<Rightarrow> error + 'j \<times> cache_state)
   \<Rightarrow> cache_state \<Rightarrow> error + 'j yielded \<times> cache_state" where
  "job ev stat t output_callbacks ctx init_cachebuilder random_outdir real_job st =
     (case get_requirement t ''WorkReuse'' of
        Inl e \<Rightarrow> Inl e
      | Inr workReuse \<Rightarrow>
          (let enableReuse =
                 (case workReuse of
                    Some (wr, is_req) \<Rightarrow>
                      if wr \<noteq> [] then (case dget wr ''enableReuse'' of
                                          None \<Rightarrow> JBool True | Some v \<Rightarrow> v)
                      else JBool True
                  | None \<Rightarrow> JBool True);
               real = (\<lambda>ctx' cb st'.
                         case real_job ctx' cb st' of
                           Inl e \<Rightarrow> Inl e
                         | Inr (j, st'') \<Rightarrow> Inr (YieldJob j, st''))
           in case cachedir ctx of
                Some cdir \<Rightarrow>
                  if cdir \<noteq> [] \<and> truthy enableReuse then
                    (case init_cachebuilder ctx of
                       Inl e \<Rightarrow> Inl e
                     | Inr cachebuilder \<Rightarrow>
                         (case cachekey ev stat t ctx cachebuilder of
                            Inl e \<Rightarrow> Inl e
                          | Inr ckey \<Rightarrow>
                              (case get_requirement t ''DockerRequirement'' of
                                 Inl e \<Rightarrow> Inl e
                               | Inr docker_req \<Rightarrow>
                                   (case cache_lookup ev t ctx output_callbacks cachebuilder
                                           docker_req cdir ckey random_outdir st of
                                      Inl e \<Rightarrow> Inl e
                                    | Inr (CacheHit cj, st') \<Rightarrow> Inr (YieldCallbackJob cj, st')
                                    | Inr (CacheMiss ctx' cb, st') \<Rightarrow>
                                        real ctx' (Some cb) st'))))
                  else real ctx output_callbacks st
              | None \<Rightarrow> real ctx output_callbacks st))"

section \<open>Sample collaborators\<close>

text \<open>
  Concrete stand-ins for the parameters, on a POSIX host: they instantiate the
  theorems below at explicit inputs. \<open>posix_env\<close> builds a file URI by prefixing
  \<open>file://\<close> and sorts by code point.
\<close>

definition posix_basename :: "string \<Rightarrow> string" where
  "posix_basename p = rev (takeWhile (\<lambda>c. c \<noteq> CHR ''/'') (rev p))"

definition posix_dirname :: "string \<Rightarrow> string" where
  "posix_dirname p =
     (let hd_part = rev (dropWhile (\<lambda>c. c \<noteq> CHR ''/'') (rev p));
          stripped = rev (dropWhile (\<lambda>c. c = CHR ''/'') (rev hd_part))
      in if stripped = [] then hd_part else stripped)"

definition posix_splitext :: "string \<Rightarrow> string \<times> string" where
  "posix_splitext p =
     (let base = posix_basename p;
          ext = rev (takeWhile (\<lambda>c. c \<noteq> CHR ''.'') (rev base));
          root = take (length base - length ext - 1) base
      in if CHR ''.'' \<notin> set base \<or> (\<forall>c \<in> set root. c = CHR ''.'') then (p, [])
         else (take (length p - length ext - 1) p, CHR ''.'' # ext))"

definition posix_join :: "string \<Rightarrow> string \<Rightarrow> string" where
  "posix_join a p =
     (if startswith p ''/'' then p
      else if a = [] \<or> last a = CHR ''/'' then a @ p
      else a @ ''/'' @ p)"

fun str_cmp :: "string \<Rightarrow> string \<Rightarrow> int" where
  "str_cmp [] [] = 0"
| "str_cmp [] (y # ys) = - 1"
| "str_cmp (x # xs) [] = 1"
| "str_cmp (x # xs) (y # ys) =
     (if x = y then str_cmp xs ys
      else if (of_char x :: nat) < of_char y then - 1 else 1)"

text \<open>
  A compact JSON writer with sorted keys (strings are written without escapes) and
  a small checksum in place of MD5, for the sample environment.
\<close>

definition digit :: "nat \<Rightarrow> char" where
  "digit d =
     (if d = 0 then CHR ''0'' else if d = 1 then CHR ''1'' else if d = 2 then CHR ''2''
      else if d = 3 then CHR ''3'' else if d = 4 then CHR ''4'' else if d = 5 then CHR ''5''
      else if d = 6 then CHR ''6'' else if d = 7 then CHR ''7'' else if d = 8 then CHR ''8''
      else CHR ''9'')"

function string_of_nat :: "nat \<Rightarrow> string" where
  "string_of_nat n =
     (if n < 10 then [digit n] else string_of_nat (n div 10) @ [digit (n mod 10)])"
  by pat_completeness auto
termination
  by (relation "measure id") auto

definition string_of_int :: "int \<Rightarrow> string" where
  "string_of_int i = (if i < 0 then ''-'' @ string_of_nat (nat (- i)) else string_of_nat (nat i))"

definition dquote :: "string \<Rightarrow> string" where
  "dquote s = [CHR 0x22] @ s @ [CHR 0x22]"

fun dumps :: "string \<times> string \<Rightarrow> bool \<Rightarrow> json \<Rightarrow> string" where
  "dumps seps sort_keys JNull = ''null''"
| "dumps seps sort_keys (JBool v) = (if v then ''true'' else ''false'')"
| "dumps seps sort_keys (JInt i) = string_of_int i"
| "dumps seps sort_keys (JStr s) = dquote s"
| "dumps seps sort_keys (JList xs) =
     ''['' @ join_str (fst seps) (map (dumps seps sort_keys) xs) @ '']''"
| "dumps seps sort_keys (JObj kvs) =
     (let items = map (\<lambda>kv. (fst kv, dumps seps sort_keys (snd kv))) kvs;
          ordered = (if sort_keys then sorted_cmp (\<lambda>x y. str_cmp (fst x) (fst y)) items
                     else items)
      in ''{'' @ join_str (fst seps) (map (\<lambda>kv. dquote (fst kv) @ snd seps @ snd kv) ordered)
         @ ''}'')"

definition toy_digest :: "string \<Rightarrow> string" where
  "toy_digest s = string_of_nat (foldl (\<lambda>h c. (h * 31 + of_char c) mod 65521) 7 s)"

definition err_text :: "error \<Rightarrow> string" where
  "err_text e =
     (case e of
        WorkflowException m \<Rightarrow> m | ValidationException m \<Rightarrow> m
      | UnsupportedRequirement m \<Rightarrow> m | ValueError m \<Rightarrow> m | KeyError m \<Rightarrow> m
      | OSError m \<Rightarrow> m | OtherError m \<Rightarrow> m | _ \<Rightarrow> [])"

definition posix_env :: env where
  "posix_env = \<lparr>
     url_scheme = (\<lambda>s. if startswith s ''file://'' then ''file'' else []),
     file_uri = (\<lambda>p. ''file://'' @ p),
     uri_file_path = drop 7,
     convert_pathsep_to_unix = (\<lambda>p. p),
     os_sep = ''/'',
     os_isabs = (\<lambda>p. startswith p ''/''),
     os_basename = posix_basename,
     os_dirname = posix_dirname,
     os_join = posix_join,
     os_splitext = posix_splitext,
     py_str = (\<lambda>j. ''<value>''),
     src_line = err_text,
     strcoll = str_cmp,
     quote = (\<lambda>s. apos @ s @ apos),
     json_dumps = dumps,
     md5_hexdigest = toy_digest,
     substitute = (\<lambda>basename pattern. basename @ pattern),
     shortname = posix_basename
   \<rparr>"

text \<open>
  A host file system with the output directory \<open>/host/out\<close>; locations are paths
  or file URIs, and \<open>glob\<close> returns file URIs.
\<close>

definition host_files :: "string list" where
  "host_files =
     [''/host/out/out.txt'', ''/host/out/b.txt'', ''/host/out/a.txt'', ''/host/out/x.bam'',
      ''/host/out/y.bam'', ''/host/out/y.bam.bai'']"

definition host_dirs :: "string list" where
  "host_dirs = [''/host/out'', ''/host'', ''/'']"

definition local_path :: "string \<Rightarrow> string" where
  "local_path p = (if startswith p ''file://'' then drop 7 p else p)"

definition local_glob :: "string \<Rightarrow> string list" where
  "local_glob p =
     (if p = ''/host/out/*.txt''
      then [''/host/out/out.txt'', ''/host/out/b.txt'', ''/host/out/a.txt'']
      else if p \<in> set host_files \<or> p \<in> set host_dirs then [p]
      else [])"

definition local_fs :: fs_access where
  "local_fs = \<lparr>
     fs_glob = (\<lambda>p. Inr (map (\<lambda>q. ''file://'' @ q) (local_glob (local_path p)))),
     fs_join = posix_join,
     fs_exists = (\<lambda>p. local_path p \<in> set host_files \<or> local_path p \<in> set host_dirs),
     fs_isfile = (\<lambda>p. local_path p \<in> set host_files),
     fs_isdir = (\<lambda>p. local_path p \<in> set host_dirs),
     fs_size = (\<lambda>p. if local_path p \<in> set host_files then Inr 6 else Inl (OSError ''No such file'')),
     fs_read_contents =
       (\<lambda>p. if local_path p \<in> set host_files then Inr ''hello'' else Inl (OSError ''No such file'')),
     fs_sha1 =
       (\<lambda>p. if local_path p \<in> set host_files
            then Inr ''f572d396fae9206628714fb2ce00f72e94f2258f''
            else Inl (OSError ''No such file'')),
     fs_get_listing = (\<lambda>f r. Inr f)
   \<rparr>"

definition staged_in :: pathmapper where
  "staged_in =
     [(''file:///data/in.txt'',
       \<lparr>resolved = ''/data/in.txt'', target = ''/stage/in.txt'',
        ent_type = ''File'', staged = True\<rparr>)]"

text \<open>A builder for a run in a container, whose output directory \<open>/var/spool/cwl\<close>
  differs from the host's, and one for a local run in \<open>/host/out\<close> itself.\<close>

definition sandbox_builder :: builder where
  "sandbox_builder = \<lparr>
     outdir = ''/var/spool/cwl'',
     pathmapper = Some staged_in,
     files = [],
     bindings = [],
     b_fs_access = local_fs,
     generate_arg = (\<lambda>b. Inr []),
     do_eval = (\<lambda>ex ctx. Inr ex),
     loadListing = None
   \<rparr>"

definition no_container_context :: runtime_context where
  "no_container_context = \<lparr>
     use_container = False,
     find_default_container = None,
     default_container = None,
     singularity = False,
     user_space_docker_cmd = None,
     cachedir = None,
     rc_outdir = None,
     docker_outdir = None,
     compute_checksum = None
   \<rparr>"

definition docker_tool :: command_line_tool where
  "docker_tool = \<lparr>
     tool = [(''class'', JStr ''CommandLineTool'')],
     requirements =
       [[(''class'', JStr ''DockerRequirement''), (''dockerPull'', JStr ''debian:stable'')]],
     hints = [],
     original_requirements =
       [[(''class'', JStr ''DockerRequirement''), (''dockerPull'', JStr ''debian:stable'')]],
     original_hints = []
   \<rparr>"


definition literal_arg :: "obj \<Rightarrow> error + string list" where
  "literal_arg x =
     (case dget x ''datum'' of Some (JStr s) \<Rightarrow> Inr [s] | _ \<Rightarrow> Inr [])"


definition local_builder :: builder where
  "local_builder = sandbox_builder\<lparr>outdir := ''/host/out''\<rparr>"


definition bam_port :: "string \<Rightarrow> obj" where
  "bam_port g =
     [(''id'', JStr ''#main/bam''),
      (''type'', JStr ''File''),
      (''outputBinding'', JObj [(''glob'', JStr g)]),
      (''secondaryFiles'',
       JList [JObj [(''pattern'', JStr ''.bai''), (''required'', JBool True)]])]"

text \<open>
  The spec's scenario B with a cache: \<open>cat\<close> on one staged input file, the cache
  directory \<open>/cache\<close>, and the cache builder on the synthetic paths.
\<close>

definition cat_tool :: command_line_tool where
  "cat_tool = \<lparr>
     tool =
       [(''class'', JStr ''CommandLineTool''),
        (''baseCommand'', JList [JStr ''cat'']),
        (''stdout'', JStr ''result''),
        (''outputs'',
         JList [JObj [(''id'', JStr ''#main/o''), (''type'', JStr ''File''),
                      (''outputBinding'', JObj [(''glob'', JStr ''result'')])]])],
     requirements = [],
     hints = [],
     original_requirements = [],
     original_hints = []
   \<rparr>"

definition cache_context :: runtime_context where
  "cache_context = no_container_context\<lparr>cachedir := Some ''/cache''\<rparr>"

definition cache_builder :: builder where
  "cache_builder = \<lparr>
     outdir = ''/out'',
     pathmapper = Some staged_in,
     files =
       [[(''class'', JStr ''File''), (''location'', JStr ''file:///data/in.txt''),
         (''path'', JStr ''/stage/in.txt''), (''basename'', JStr ''in.txt'')]],
     bindings =
       [[(''position'', JInt 0), (''datum'', JStr ''cat'')],
        [(''position'', JInt 1), (''datum'', JStr ''/stage/in.txt'')]],
     b_fs_access = local_fs,
     generate_arg = literal_arg,
     do_eval = (\<lambda>ex ctx. Inr ex),
     loadListing = None
   \<rparr>"

definition host_stat :: "string \<Rightarrow> error + int \<times> int" where
  "host_stat p =
     (if p = ''/data/in.txt'' then Inr (12, 1700000000000) else Inl (OSError p))"

text \<open>The cache directory after a successful first run of the sample tool, whose
  cache key is \<open>30066\<close> under the sample checksum.\<close>

definition warm_cache :: cache_state where
  "warm_cache = \<lparr>
     cs_dirs = [''/cache'', ''/cache/30066''],
     cs_files = [(''/cache/30066.status'', ''success'')],
     cs_locks = []
   \<rparr>"

chapter \<open>Properties\<close>

section \<open>Reverse mapping\<close>







text \<open>
  Claim C9: a descriptor that has a \<open>location\<close> and no \<open>path\<close>, whose location does not
  start with \<open>file://\<close>, is returned by \<open>revmap_file\<close> unchanged and without error,
  whatever the builder and the output directory are.
\<close>

theorem revmap_file_remote_passthrough:
  assumes "dget f ''location'' = Some (JStr location)"
    and "\<not> has f ''path''"
    and "\<not> startswith location ''file://''"
  shows "revmap_file ev b od f = Inr f"
  using assms by (simp add: revmap_file_def has_def dget_def)

theorem revmap_file_remote_passthrough_witness:
  "revmap_file posix_env sandbox_builder ''/host/out''
     [(''class'', JStr ''File''), (''location'', JStr ''http://example.org/ref.fa'')]
   = Inr [(''class'', JStr ''File''), (''location'', JStr ''http://example.org/ref.fa'')]"
  using revmap_file_remote_passthrough
    [of "[(''class'', JStr ''File''), (''location'', JStr ''http://example.org/ref.fa'')]"
        "''http://example.org/ref.fa''" posix_env sandbox_builder "''/host/out''"]
  by (simp add: dget_def has_def startswith_def)

section \<open>Requirements and runner selection\<close>

text \<open>A requirement or hint is well formed when it has a \<open>class\<close>; on well-formed
  lists the lookups raise no \<open>KeyError\<close>.\<close>

lemma find_class_wf:
  assumes "\<forall>r \<in> set xs. has r ''class''"
  shows "find_class c xs = Inr (find (\<lambda>r. dget r ''class'' = Some (JStr c)) xs)"
  using assms by (induction xs) (auto simp: has_def dget_def split: option.splits)

lemma reject_docker_wf:
  assumes "\<forall>r \<in> set xs. has r ''class''"
  shows "reject_docker xs =
     (if \<exists>r \<in> set xs. dget r ''class'' = Some (JStr ''DockerRequirement'')
      then Inl (UnsupportedRequirement
                 (''--no-container, but this CommandLineTool has DockerRequirement under ''
                  @ apos @ ''requirements'' @ apos @ ''.''))
      else Inr ())"
  using assms by (induction xs) (auto simp: has_def dget_def split: option.splits)

lemma get_requirement_wf:
  assumes "\<forall>r \<in> set (requirements t) \<union> set (hints t). has r ''class''"
  shows "get_requirement t c =
     Inr (case find (\<lambda>r. dget r ''class'' = Some (JStr c)) (rev (requirements t)) of
            Some item \<Rightarrow> Some (item, True)
          | None \<Rightarrow>
             (case find (\<lambda>r. dget r ''class'' = Some (JStr c)) (rev (hints t)) of
                Some item \<Rightarrow> Some (item, False)
              | None \<Rightarrow> None))"
proof -
  have a: "\<forall>r \<in> set (rev (requirements t)). has r ''class''"
   and b: "\<forall>r \<in> set (rev (hints t)). has r ''class''"
    using assms by auto
  show ?thesis
    unfolding get_requirement_def find_class_wf [OF a] find_class_wf [OF b]
    by (simp split: option.splits)
qed

lemma find_None_rev: "find P (rev xs) = None \<longleftrightarrow> (\<forall>x \<in> set xs. \<not> P x)"
  by (auto simp: find_None_iff)

lemma find_Some_rev_ex: "(\<exists>y. find P (rev xs) = Some y) \<longleftrightarrow> (\<exists>x \<in> set xs. P x)"
  using find_None_rev [of P xs] by (cases "find P (rev xs)") auto

text \<open>
  Claim C8: when container use is disabled and a DockerRequirement is among the
  tool's requirements, \<open>make_job_runner\<close> raises the unsupported-requirement error,
  so no job class is returned and no job is built from it; when container use is
  disabled and DockerRequirement is not among the requirements (it may be among the
  hints), the local-process runner \<open>CommandLineJob\<close> is selected and the tool is
  unchanged. That is the only way \<open>make_job_runner\<close> fails on a tool whose
  requirements and hints all have a class: with containers enabled, a
  DockerRequirement always finds a container backend.
\<close>

theorem make_job_runner_no_container:
  assumes wf: "\<forall>r \<in> set (requirements t) \<union> set (hints t). has r ''class''"
    and msg: "msg = ''--no-container, but this CommandLineTool has DockerRequirement under ''
                  @ apos @ ''requirements'' @ apos @ ''.''"
  shows "(\<not> use_container ctx
          \<and> (\<exists>r \<in> set (requirements t). dget r ''class'' = Some (JStr ''DockerRequirement''))
          \<longrightarrow> make_job_runner t ctx = Inl (UnsupportedRequirement msg))
       \<and> (\<not> use_container ctx
          \<and> (\<forall>r \<in> set (requirements t). dget r ''class'' \<noteq> Some (JStr ''DockerRequirement''))
          \<longrightarrow> make_job_runner t ctx = Inr (CommandLineJob, t))
       \<and> (\<forall>e. make_job_runner t ctx = Inl e
          \<longrightarrow> e = UnsupportedRequirement msg \<and> \<not> use_container ctx
            \<and> (\<exists>r \<in> set (requirements t). dget r ''class'' = Some (JStr ''DockerRequirement'')))"
proof -
  have wfr: "\<forall>r \<in> set (rev (requirements t)). has r ''class''" using wf by auto
  note gr = get_requirement_wf [OF wf, of "''DockerRequirement''"]
  note rd = reject_docker_wf [OF wfr]
  let ?P = "\<lambda>r. dget r ''class'' = Some (JStr ''DockerRequirement'')"
  have none: "find ?P (rev (requirements t)) = None \<longleftrightarrow> (\<forall>x \<in> set (requirements t). \<not> ?P x)"
    by (rule find_None_rev)
  have c1: "\<not> use_container ctx \<Longrightarrow> \<exists>r \<in> set (requirements t). ?P r
        \<Longrightarrow> make_job_runner t ctx = Inl (UnsupportedRequirement msg)"
    unfolding make_job_runner_def gr msg by (simp add: Let_def rd)
  have c2: "\<not> use_container ctx \<Longrightarrow> \<forall>r \<in> set (requirements t). \<not> ?P r
        \<Longrightarrow> make_job_runner t ctx = Inr (CommandLineJob, t)"
    unfolding make_job_runner_def gr by (simp add: Let_def rd)
  have c3: "make_job_runner t ctx = Inl e \<Longrightarrow> e = UnsupportedRequirement msg \<and> \<not> use_container ctx
            \<and> (\<exists>r \<in> set (requirements t). ?P r)" for e
  proof (cases "use_container ctx")
    case False
    assume "make_job_runner t ctx = Inl e"
    with False c1 c2 show ?thesis by (cases "\<exists>r \<in> set (requirements t). ?P r") auto
  next
    case True
    assume e: "make_job_runner t ctx = Inl e"
    show ?thesis
    proof (cases "find ?P (rev (requirements t))")
      case (Some a)
      then have "?P a" by (auto simp: find_Some_iff)
      then have "a \<noteq> []" by (auto simp: dget_def)
      with Some True e show ?thesis
        unfolding make_job_runner_def gr by (simp add: Let_def split: if_splits)
    next
      case None
      then have nd: "\<forall>x \<in> set (requirements t). \<not> ?P x" using none by simp
      from True e None nd show ?thesis
        unfolding make_job_runner_def gr
        by (auto simp: Let_def rd dget_def split: if_splits option.splits)
    qed
  qed
  from c1 c2 c3 show ?thesis by blast
qed

theorem make_job_runner_no_container_witness:
  "make_job_runner docker_tool no_container_context =
     Inl (UnsupportedRequirement
           (''--no-container, but this CommandLineTool has DockerRequirement under ''
            @ apos @ ''requirements'' @ apos @ ''.''))
   \<and> make_job_runner (docker_tool\<lparr>requirements := [], hints := requirements docker_tool\<rparr>)
        no_container_context =
     Inr (CommandLineJob, docker_tool\<lparr>requirements := [], hints := requirements docker_tool\<rparr>)"
proof -
  let ?msg = "''--no-container, but this CommandLineTool has DockerRequirement under ''
            @ apos @ ''requirements'' @ apos @ ''.''"
  let ?hinted = "docker_tool\<lparr>requirements := [], hints := requirements docker_tool\<rparr>"
  have wf1: "\<forall>r \<in> set (requirements docker_tool) \<union> set (hints docker_tool). has r ''class''"
    by (simp add: docker_tool_def has_def)
  have wf2: "\<forall>r \<in> set (requirements ?hinted) \<union> set (hints ?hinted). has r ''class''"
    by (simp add: docker_tool_def has_def)
  have nc: "\<not> use_container no_container_context"
    by (simp add: no_container_context_def)
  have d1: "\<exists>r \<in> set (requirements docker_tool).
              dget r ''class'' = Some (JStr ''DockerRequirement'')"
    by (simp add: docker_tool_def dget_def)
  have d2: "\<forall>r \<in> set (requirements ?hinted).
              dget r ''class'' \<noteq> Some (JStr ''DockerRequirement'')"
    by simp
  from make_job_runner_no_container [OF wf1 refl, of no_container_context] nc d1
  have a: "make_job_runner docker_tool no_container_context = Inl (UnsupportedRequirement ?msg)"
    by blast
  from make_job_runner_no_container [OF wf2 refl, of no_container_context] nc d2
  have b: "make_job_runner ?hinted no_container_context = Inr (CommandLineJob, ?hinted)"
    by blast
  from a b show ?thesis by simp
qed

section \<open>Command line assembly\<close>





section \<open>Glob patterns\<close>

text \<open>The sort is a permutation, and its result is ordered when \<open>cmp\<close> compares like a
  strict weak order.\<close>

lemma mset_insort_cmp: "mset (insort_cmp c x ys) = add_mset x (mset ys)"
  by (induction ys) auto

lemma mset_sorted_cmp: "mset (sorted_cmp c xs) = mset xs"
  by (induction xs) (auto simp: sorted_cmp_def mset_insort_cmp)

lemma set_insort_cmp: "set (insort_cmp c x ys) = insert x (set ys)"
  by (induction ys) auto

lemma sorted_insort_cmp:
  assumes asym: "\<And>a b. c a b < 0 \<Longrightarrow> \<not> c b a < 0"
    and negtrans: "\<And>a b d. c a d < 0 \<Longrightarrow> c a b < 0 \<or> c b d < 0"
    and "sorted_wrt (\<lambda>x y. \<not> c y x < 0) ys"
  shows "sorted_wrt (\<lambda>x y. \<not> c y x < 0) (insort_cmp c x ys)"
  using assms(3)
proof (induction ys)
  case Nil
  then show ?case by simp
next
  case (Cons y ys)
  show ?case
  proof (cases "c y x < 0")
    case True
    with Cons asym show ?thesis
      by (auto simp: set_insort_cmp)
  next
    case False
    have "\<not> c z x < 0" if "z \<in> set ys" for z
    proof
      assume "c z x < 0"
      then have "c z y < 0 \<or> c y x < 0" by (rule negtrans)
      with False Cons.prems that show False by auto
    qed
    with False Cons.prems show ?thesis by auto
  qed
qed

lemma sorted_sorted_cmp:
  assumes asym: "\<And>a b. c a b < 0 \<Longrightarrow> \<not> c b a < 0"
    and negtrans: "\<And>a b d. c a d < 0 \<Longrightarrow> c a b < 0 \<or> c b d < 0"
  shows "sorted_wrt (\<lambda>x y. \<not> c y x < 0) (sorted_cmp c xs)"
proof (induction xs)
  case Nil
  then show ?case by (simp add: sorted_cmp_def)
next
  case (Cons x xs)
  have "sorted_cmp c (x # xs) = insort_cmp c x (sorted_cmp c xs)"
    by (simp add: sorted_cmp_def)
  with Cons sorted_insort_cmp [of c "sorted_cmp c xs" x, OF asym negtrans]
  show ?case by simp
qed

lemma glob_matches_hits:
  assumes "fs_glob fs outd = Inr (prefix0 # ps)"
    and "fs_glob fs (fs_join fs outd p) = Inr hits"
  shows "glob_matches ev b fs outd p =
           Inr (map (glob_descriptor ev b fs prefix0) (sorted_cmp (strcoll ev) hits))"
  using assms by (simp add: glob_matches_def split: list.splits)

lemma glob_loop_step:
  "glob_loop ev b fs outd r (JStr gb # gbs) =
     (case glob_translate b outd gb of
        Inl e \<Rightarrow> Inl e
      | Inr p \<Rightarrow>
          (case glob_matches ev b fs outd p of
             Inl (OSError m) \<Rightarrow> glob_loop ev b fs outd r gbs
           | Inl e \<Rightarrow> Inl e
           | Inr ms \<Rightarrow> glob_loop ev b fs outd (r @ ms) gbs))"
  by simp

lemma collect_globs_raises:
  assumes "eval_globs b [] (aslist glob) = Inr pats"
    and "glob_loop ev b fs outd [] pats = Inl e"
  shows "collect_globs ev b fs outd glob = Inl (WorkflowException (src_line ev e))"
  using assms by (simp add: collect_globs_def with_source_line_def)

text \<open>
  Claim C7, as stated, rejects every pattern that starts with \<open>/\<close>. The code first
  tests whether the pattern begins with the in-sandbox output directory, which is
  itself an absolute path: the pattern \<open>/var/spool/cwl/out.txt\<close> in the sandbox
  \<open>/var/spool/cwl\<close> starts with \<open>/\<close> and is not rejected but made relative and
  executed, finding \<open>out.txt\<close> in the output directory.
\<close>

theorem glob_leading_slash_counterexample:
  "startswith ''/var/spool/cwl/out.txt'' ''/''
   \<and> collect_globs posix_env sandbox_builder local_fs ''/host/out''
        (JStr ''/var/spool/cwl/out.txt'')
       = Inr ([JStr ''/var/spool/cwl/out.txt''],
              [[(''location'', JStr ''file:///host/out/out.txt''),
                (''path'', JStr ''/var/spool/cwl/out.txt''),
                (''basename'', JStr ''out.txt''),
                (''nameroot'', JStr ''out''),
                (''nameext'', JStr ''.txt''),
                (''class'', JStr ''File'')]])"
  by (simp add: collect_globs_def with_source_line_def aslist_def glob_translate_def
      glob_matches_def glob_descriptor_def sorted_cmp_def posix_env_def sandbox_builder_def
      local_fs_def local_glob_def local_path_def host_files_def host_dirs_def
      startswith_def posix_join_def posix_basename_def posix_splitext_def Let_def)

text \<open>
  Claim C7, amended: for every evaluated glob pattern \<open>gb\<close>, with \<open>r\<close> the descriptors
  collected so far and \<open>gbs\<close> the patterns still to come: a pattern that begins with
  the in-sandbox output directory is made relative by dropping that prefix and one
  more character, also when it starts with \<open>/\<close>; otherwise the pattern \<open>.\<close> is
  translated to the output directory; otherwise a pattern starting with \<open>/\<close> is
  rejected with the error \<open>glob patterns must not start with '/'\<close>, which the
  enclosing block raises again as a workflow error; any other pattern is kept.
  The translated pattern \<open>p\<close> is executed as \<open>fs_access.glob(join(outdir, p))\<close>; the
  hits are sorted with \<open>strcoll\<close> as comparison (a permutation of the hits, in order
  when \<open>strcoll\<close> compares like a strict weak order) and each is wrapped as a
  descriptor whose class is File if \<open>isfile\<close> holds and Directory otherwise. An
  \<open>OSError\<close> of the file system skips the pattern.
\<close>

theorem glob_pattern_handling:
  assumes exec: "exec = (\<lambda>p. case glob_matches ev b fs outd p of
                              Inl (OSError m) \<Rightarrow> glob_loop ev b fs outd r gbs
                            | Inl e \<Rightarrow> Inl e
                            | Inr ms \<Rightarrow> glob_loop ev b fs outd (r @ ms) gbs)"
  shows "(startswith gb (outdir b) \<longrightarrow>
            glob_loop ev b fs outd r (JStr gb # gbs) = exec (drop (length (outdir b) + 1) gb))
       \<and> (\<not> startswith gb (outdir b) \<and> gb = ''.'' \<longrightarrow>
            glob_loop ev b fs outd r (JStr gb # gbs) = exec outd)
       \<and> (\<not> startswith gb (outdir b) \<and> gb \<noteq> ''.'' \<and> startswith gb ''/'' \<longrightarrow>
            glob_loop ev b fs outd r (JStr gb # gbs) =
              Inl (WorkflowException
                    (''glob patterns must not start with '' @ apos @ ''/'' @ apos)))
       \<and> (\<not> startswith gb (outdir b) \<and> gb \<noteq> ''.'' \<and> \<not> startswith gb ''/'' \<longrightarrow>
            glob_loop ev b fs outd r (JStr gb # gbs) = exec gb)
       \<and> (\<forall>glob pats e.
            eval_globs b [] (aslist glob) = Inr pats \<and> glob_loop ev b fs outd [] pats = Inl e
            \<longrightarrow> collect_globs ev b fs outd glob = Inl (WorkflowException (src_line ev e)))
       \<and> (\<forall>p prefix0 ps hits.
            fs_glob fs outd = Inr (prefix0 # ps) \<and> fs_glob fs (fs_join fs outd p) = Inr hits
            \<longrightarrow> glob_matches ev b fs outd p =
                  Inr (map (glob_descriptor ev b fs prefix0) (sorted_cmp (strcoll ev) hits)))
       \<and> (\<forall>prefix0 g.
            dget (glob_descriptor ev b fs prefix0 g) ''location'' = Some (JStr g)
            \<and> dget (glob_descriptor ev b fs prefix0 g) ''class'' =
                Some (JStr (if fs_isfile fs g then ''File'' else ''Directory'')))
       \<and> (\<forall>hits. mset (sorted_cmp (strcoll ev) hits) = mset hits)
       \<and> ((\<forall>x y. strcoll ev x y < 0 \<longrightarrow> \<not> strcoll ev y x < 0)
           \<and> (\<forall>x y z. strcoll ev x z < 0 \<longrightarrow> strcoll ev x y < 0 \<or> strcoll ev y z < 0)
          \<longrightarrow> (\<forall>hits. sorted_wrt (\<lambda>x y. \<not> strcoll ev y x < 0)
                        (sorted_cmp (strcoll ev) hits)))"
proof -
  have t1: "startswith gb (outdir b) \<Longrightarrow>
      glob_loop ev b fs outd r (JStr gb # gbs) = exec (drop (length (outdir b) + 1) gb)"
    unfolding glob_loop_step exec by (simp add: glob_translate_def)
  have t2: "\<not> startswith gb (outdir b) \<Longrightarrow> gb = ''.'' \<Longrightarrow>
      glob_loop ev b fs outd r (JStr gb # gbs) = exec outd"
    unfolding glob_loop_step exec by (simp add: glob_translate_def)
  have t3: "\<not> startswith gb (outdir b) \<Longrightarrow> gb \<noteq> ''.'' \<Longrightarrow> startswith gb ''/'' \<Longrightarrow>
      glob_loop ev b fs outd r (JStr gb # gbs) =
        Inl (WorkflowException (''glob patterns must not start with '' @ apos @ ''/'' @ apos))"
    unfolding glob_loop_step by (simp add: glob_translate_def)
  have t4: "\<not> startswith gb (outdir b) \<Longrightarrow> gb \<noteq> ''.'' \<Longrightarrow> \<not> startswith gb ''/'' \<Longrightarrow>
      glob_loop ev b fs outd r (JStr gb # gbs) = exec gb"
    unfolding glob_loop_step exec by (simp add: glob_translate_def)
  have t5: "\<forall>glob pats e.
            eval_globs b [] (aslist glob) = Inr pats \<and> glob_loop ev b fs outd [] pats = Inl e
            \<longrightarrow> collect_globs ev b fs outd glob = Inl (WorkflowException (src_line ev e))"
    using collect_globs_raises by blast
  have t6: "\<forall>p prefix0 ps hits.
            fs_glob fs outd = Inr (prefix0 # ps) \<and> fs_glob fs (fs_join fs outd p) = Inr hits
            \<longrightarrow> glob_matches ev b fs outd p =
                  Inr (map (glob_descriptor ev b fs prefix0) (sorted_cmp (strcoll ev) hits))"
    using glob_matches_hits by blast
  have t7: "\<forall>prefix0 g.
            dget (glob_descriptor ev b fs prefix0 g) ''location'' = Some (JStr g)
            \<and> dget (glob_descriptor ev b fs prefix0 g) ''class'' =
                Some (JStr (if fs_isfile fs g then ''File'' else ''Directory''))"
    by (simp add: glob_descriptor_def dget_def)
  have t8: "\<forall>hits. mset (sorted_cmp (strcoll ev) hits) = mset hits"
    by (simp add: mset_sorted_cmp)
  have t9: "(\<forall>x y. strcoll ev x y < 0 \<longrightarrow> \<not> strcoll ev y x < 0)
           \<and> (\<forall>x y z. strcoll ev x z < 0 \<longrightarrow> strcoll ev x y < 0 \<or> strcoll ev y z < 0)
          \<Longrightarrow> (\<forall>hits. sorted_wrt (\<lambda>x y. \<not> strcoll ev y x < 0)
                        (sorted_cmp (strcoll ev) hits))"
    using sorted_sorted_cmp [of "strcoll ev"] by blast
  from t1 t2 t3 t4 t5 t6 t7 t8 t9 show ?thesis by blast
qed

text \<open>
  The theorem at the pattern \<open>*.txt\<close> in a local run: the three hits come back in
  collation order, each as a File descriptor.
\<close>

theorem glob_pattern_handling_witness:
  "glob_loop posix_env local_builder local_fs ''/host/out'' [] [JStr ''*.txt''] =
     Inr (map (glob_descriptor posix_env local_builder local_fs ''file:///host/out'')
            [''file:///host/out/a.txt'', ''file:///host/out/b.txt'',
             ''file:///host/out/out.txt''])"
proof -
  let ?exec = "\<lambda>p. case glob_matches posix_env local_builder local_fs ''/host/out'' p of
                     Inl (OSError m) \<Rightarrow> glob_loop posix_env local_builder local_fs ''/host/out'' [] []
                   | Inl e \<Rightarrow> Inl e
                   | Inr ms \<Rightarrow> glob_loop posix_env local_builder local_fs ''/host/out'' ([] @ ms) []"
  note th = glob_pattern_handling [of ?exec posix_env local_builder local_fs "''/host/out''"
      "[]" "[]" "''*.txt''", OF refl]
  have a: "\<not> startswith ''*.txt'' (outdir local_builder)" "''*.txt'' \<noteq> ''.''"
      "\<not> startswith ''*.txt'' ''/''"
    by (simp_all add: local_builder_def sandbox_builder_def startswith_def)
  from th a have step: "glob_loop posix_env local_builder local_fs ''/host/out'' [] [JStr ''*.txt'']
      = ?exec ''*.txt''"
    by blast
  have g1: "fs_glob local_fs ''/host/out'' = Inr [''file:///host/out'']"
    by (simp add: local_fs_def local_glob_def local_path_def host_files_def host_dirs_def
        startswith_def)
  have g2: "fs_glob local_fs (fs_join local_fs ''/host/out'' ''*.txt'') =
      Inr [''file:///host/out/out.txt'', ''file:///host/out/b.txt'', ''file:///host/out/a.txt'']"
    by (simp add: local_fs_def local_glob_def local_path_def posix_join_def startswith_def)
  from th g1 g2 have m: "glob_matches posix_env local_builder local_fs ''/host/out'' ''*.txt'' =
      Inr (map (glob_descriptor posix_env local_builder local_fs ''file:///host/out'')
             (sorted_cmp (strcoll posix_env)
                [''file:///host/out/out.txt'', ''file:///host/out/b.txt'',
                 ''file:///host/out/a.txt'']))"
    by blast
  have s: "sorted_cmp (strcoll posix_env)
                [''file:///host/out/out.txt'', ''file:///host/out/b.txt'',
                 ''file:///host/out/a.txt'']
           = [''file:///host/out/a.txt'', ''file:///host/out/b.txt'',
              ''file:///host/out/out.txt'']"
    by (simp add: sorted_cmp_def posix_env_def)
  show ?thesis unfolding step m s by simp
qed

section \<open>Cardinality of an output port\<close>










section \<open>Secondary files\<close>





text \<open>
  The spec's scenario E as a whole: \<open>x.bam\<close> is produced, its required index is not,
  and collecting the port fails; next to \<open>y.bam\<close> the index is found.
\<close>

lemma scenario_missing_secondary_file:
  "collect_output posix_env local_builder ''/host/out'' local_fs True (bam_port ''x.bam'')
     = Inl (WorkflowException
             (''Missing required secondary file '' @ apos @ ''/host/out/x.bam.bai'' @ apos))"
  by (simp add: bam_port_def collect_binding_def collect_matches_def collect_globs_def
      with_source_line_def aslist_def glob_translate_def glob_matches_def glob_descriptor_def
      sorted_cmp_def collect_file_def eval_result_def port_single_def port_optional_def
      single_result_def finish_result_def secondary_files_def secondary_primary_def
      secondary_pattern_def secondary_item_def
      revmap_file_def revmap_path_def revmap_location_def reversemap_def mapper_def
      posix_env_def err_text_def local_builder_def sandbox_builder_def staged_in_def
      local_fs_def local_glob_def local_path_def host_files_def host_dirs_def
      has_def dget_def dset_def ddel_def startswith_def posix_join_def posix_basename_def
      posix_splitext_def Let_def)

section \<open>Cache hit\<close>

lemma cache_lookup_hit:
  assumes "jobcache = os_join ev cdir ckey"
    and "jobcache \<in> set (cs_dirs st)"
    and "map_of (cs_files st) (jobcache @ ''.status'') = Some ''success''"
  shows "cache_lookup ev t ctx output_callbacks cachebuilder docker_req cdir ckey random_outdir st =
     Inr (CacheHit
            \<lparr>cj_job = t,
             cj_output_callback = output_callbacks,
             cj_cachebuilder =
               cachebuilder\<lparr>outdir :=
                 (if docker_req \<noteq> None \<and> map_option fst docker_req \<noteq> Some []
                     \<and> use_container ctx
                  then (case docker_outdir ctx of
                          Some d \<Rightarrow> if d \<noteq> [] then d else random_outdir
                        | None \<Rightarrow> random_outdir)
                  else jobcache)\<rparr>,
             cj_outdir = jobcache\<rparr>,
          st\<lparr>cs_locks := AList.update (jobcache @ ''.status'') Shared (cs_locks st)\<rparr>)"
  using assms by (simp add: cache_lookup_def Let_def)

lemma job_with_cache:
  assumes "cachedir ctx = Some cdir" and "cdir \<noteq> []"
    and "get_requirement t ''WorkReuse'' = Inr wr"
    and "\<forall>w r. wr = Some (w, r) \<longrightarrow>
           dget w ''enableReuse'' = None \<or> (\<exists>v. dget w ''enableReuse'' = Some v \<and> truthy v)"
    and "init_cachebuilder ctx = Inr cachebuilder"
    and "cachekey ev stat t ctx cachebuilder = Inr ckey"
    and "get_requirement t ''DockerRequirement'' = Inr docker_req"
  shows "job ev stat t output_callbacks ctx init_cachebuilder random_outdir real_job st =
     (case cache_lookup ev t ctx output_callbacks cachebuilder docker_req cdir ckey
             random_outdir st of
        Inl e \<Rightarrow> Inl e
      | Inr (CacheHit cj, st') \<Rightarrow> Inr (YieldCallbackJob cj, st')
      | Inr (CacheMiss ctx' cb, st') \<Rightarrow>
          (case real_job ctx' (Some cb) st' of
             Inl e \<Rightarrow> Inl e
           | Inr (j, st'') \<Rightarrow> Inr (YieldJob j, st'')))"
proof -
  have en: "truthy (case wr of
                    Some (w, is_req) \<Rightarrow>
                      if w \<noteq> [] then (case dget w ''enableReuse'' of
                                          None \<Rightarrow> JBool True | Some v \<Rightarrow> v)
                      else JBool True
                  | None \<Rightarrow> JBool True)"
    using assms(4) by (cases wr) (auto split: option.splits)
  show ?thesis
    using assms(1,2,3,5,6,7) en
    by (simp add: job_def Let_def)
qed

text \<open>
  Claim C2: let a cache directory be configured, reuse be enabled (no WorkReuse, or
  one whose \<open>enableReuse\<close> is absent or true), and the cache key be \<open>ckey\<close>. If the
  directory \<open>jobcache\<close>, the cache directory joined with the key, exists and the
  status file \<open>jobcache.status\<close> holds exactly \<open>success\<close>, then \<open>job\<close> yields a
  \<open>CallbackJob\<close> for \<open>jobcache\<close>, holding the shared lock on the status file and
  leaving directories and files as they are; the construction of the real job,
  whatever it is, takes no part. Run with an output callback, the \<open>CallbackJob\<close>
  calls the collector on the tool's output ports with the cache builder and
  \<open>jobcache\<close> as output directory, and calls the callback with the collected outputs
  and the status \<open>success\<close>.
\<close>

theorem cache_hit_yields_callback_job:
  assumes cdir: "cachedir ctx = Some cdir" "cdir \<noteq> []"
    and reuse: "get_requirement t ''WorkReuse'' = Inr wr"
      "\<forall>w r. wr = Some (w, r) \<longrightarrow>
         dget w ''enableReuse'' = None \<or> (\<exists>v. dget w ''enableReuse'' = Some v \<and> truthy v)"
    and cachebuilder: "init_cachebuilder ctx = Inr cachebuilder"
    and key: "cachekey ev stat t ctx cachebuilder = Inr ckey"
    and jobcache: "jobcache = os_join ev cdir ckey"
    and isdir: "jobcache \<in> set (cs_dirs st)"
    and status: "map_of (cs_files st) (jobcache @ ''.status'') = Some ''success''"
  shows "\<exists>cj st'.
           job ev stat t output_callbacks ctx init_cachebuilder random_outdir real_job st
             = Inr (YieldCallbackJob cj, st')
         \<and> cj_job cj = t \<and> cj_output_callback cj = output_callbacks
         \<and> cj_outdir cj = jobcache
         \<and> map_of (cs_locks st') (jobcache @ ''.status'') = Some Shared
         \<and> cs_dirs st' = cs_dirs st \<and> cs_files st' = cs_files st
         \<and> (\<forall>cb ports collect outputs ctx'.
               output_callbacks = Some cb \<and> dget (tool t) ''outputs'' = Some ports
               \<and> collect ports (cj_cachebuilder cj) jobcache
                    (JBool (getdefault (compute_checksum ctx') True)) = Inr outputs
               \<longrightarrow> callback_job_run collect cj ctx' st' = run_callback cb outputs ''success'' st')
         \<and> (\<forall>name outputs.
               run_callback (Callback name) outputs ''success'' st'
                 = Inr ([Invoked name outputs ''success''], st'))"
proof -
  from key obtain docker_req where dr: "get_requirement t ''DockerRequirement'' = Inr docker_req"
    by (auto simp: cachekey_def cache_keydict_def key_cmdline_def split: sum.splits)
  let ?cj = "\<lparr>cj_job = t,
             cj_output_callback = output_callbacks,
             cj_cachebuilder =
               cachebuilder\<lparr>outdir :=
                 (if docker_req \<noteq> None \<and> map_option fst docker_req \<noteq> Some []
                     \<and> use_container ctx
                  then (case docker_outdir ctx of
                          Some d \<Rightarrow> if d \<noteq> [] then d else random_outdir
                        | None \<Rightarrow> random_outdir)
                  else jobcache)\<rparr>,
             cj_outdir = jobcache\<rparr>"
  let ?st = "st\<lparr>cs_locks := AList.update (jobcache @ ''.status'') Shared (cs_locks st)\<rparr>"
  have j: "job ev stat t output_callbacks ctx init_cachebuilder random_outdir real_job st
             = Inr (YieldCallbackJob ?cj, ?st)"
    unfolding job_with_cache [where init_cachebuilder = init_cachebuilder and ctx = ctx,
        OF cdir reuse cachebuilder key dr]
      cache_lookup_hit [OF jobcache isdir status]
    by simp
  have l: "map_of (cs_locks ?st) (jobcache @ ''.status'') = Some Shared"
    by (simp add: update_conv')
  have r: "callback_job_run collect ?cj ctx' ?st = run_callback cb outputs ''success'' ?st"
    if "output_callbacks = Some cb" "dget (tool t) ''outputs'' = Some ports"
       "collect ports (cj_cachebuilder ?cj) jobcache
          (JBool (getdefault (compute_checksum ctx') True)) = Inr outputs"
    for cb ports collect outputs ctx'
    using that by (simp add: callback_job_run_def)
  show ?thesis
    apply (rule exI [of _ ?cj])
    apply (rule exI [of _ ?st])
    apply (intro conjI)
            apply (rule j)
           apply simp
          apply simp
         apply simp
        apply (rule l)
       apply simp
      apply simp
     apply (use r in blast)
    apply simp
    done
qed

text \<open>The sample tool's key dictionary, its canonical JSON and its cache key.\<close>

lemma sample_keydict:
  "cache_keydict host_stat cat_tool cache_context cache_builder =
     Inr [(''cmdline'', JList [JStr ''cat'', JStr ''/stage/in.txt'']),
          (''stdout'', JStr ''result''),
          (''/data/in.txt'', JList [JInt 12, JInt 1700000000000])]"
  by (simp add: cache_keydict_def key_cmdline_def get_requirement_def
     cat_tool_def cache_context_def no_container_context_def cache_builder_def staged_in_def
     host_stat_def literal_arg_def flatten_def dget_def dset_def has_def pget_def
     interesting_def Let_def)

lemma sample_json:
  "dumps ('','', '':'') True
     (JObj [(''cmdline'', JList [JStr ''cat'', JStr ''/stage/in.txt'']),
            (''stdout'', JStr ''result''),
            (''/data/in.txt'', JList [JInt 12, JInt 1700000000000])])
   = ''{\"/data/in.txt\":[12,1700000000000],\"cmdline\":[\"cat\",\"/stage/in.txt\"],\"stdout\":\"result\"}''"
  by (simp add: digit_def string_of_int_def dquote_def sorted_cmp_def Let_def)

lemma sample_digest:
  "toy_digest
     ''{\"/data/in.txt\":[12,1700000000000],\"cmdline\":[\"cat\",\"/stage/in.txt\"],\"stdout\":\"result\"}''
   = ''30066''"
  by (simp add: toy_digest_def digit_def)

lemma sample_cachekey:
  "cachekey posix_env host_stat cat_tool cache_context cache_builder = Inr ''30066''"
proof -
  have a: "json_dumps posix_env = dumps" and b: "md5_hexdigest posix_env = toy_digest"
    by (simp_all add: posix_env_def)
  show ?thesis
    unfolding cachekey_def sample_keydict
    by (simp only: sum.case a b sample_json sample_digest)
qed

text \<open>
  The theorem at the spec's scenario C: on the second run the cache directory and
  the status \<open>success\<close> are there, and \<open>job\<close> yields the \<open>CallbackJob\<close> for
  \<open>/cache/30066\<close>, whatever the construction of the real job would do.
\<close>

theorem cache_hit_yields_callback_job_witness:
  "\<exists>cj st'.
     job posix_env host_stat cat_tool (Some (Callback ''done'')) cache_context
       (\<lambda>ctx. Inr cache_builder) ''/tmp/rnd''
       (\<lambda>ctx cb st. Inl (OtherError ''the real job'') :: error + unit \<times> cache_state)
       warm_cache
     = Inr (YieldCallbackJob cj, st')
     \<and> cj_outdir cj = ''/cache/30066''
     \<and> cj_output_callback cj = Some (Callback ''done'')
     \<and> map_of (cs_locks st') ''/cache/30066.status'' = Some Shared"
proof -
  have cdir: "cachedir cache_context = Some ''/cache''" "''/cache'' \<noteq> []"
    by (simp_all add: cache_context_def)
  have reuse: "get_requirement cat_tool ''WorkReuse'' = Inr None"
    "\<forall>w r. (None :: (obj \<times> bool) option) = Some (w, r) \<longrightarrow>
         dget w ''enableReuse'' = None \<or> (\<exists>v. dget w ''enableReuse'' = Some v \<and> truthy v)"
    by (simp_all add: get_requirement_def cat_tool_def)
  have jc: "''/cache/30066'' = os_join posix_env ''/cache'' ''30066''"
    by (simp add: posix_env_def posix_join_def startswith_def)
  have isdir: "''/cache/30066'' \<in> set (cs_dirs warm_cache)"
    and status: "map_of (cs_files warm_cache) (''/cache/30066'' @ ''.status'') = Some ''success''"
    by (simp_all add: warm_cache_def)
  from cache_hit_yields_callback_job
    [where init_cachebuilder = "\<lambda>ctx. Inr cache_builder" and ctx = cache_context
       and output_callbacks = "Some (Callback ''done'')" and random_outdir = "''/tmp/rnd''"
       and real_job = "\<lambda>ctx cb st. Inl (OtherError ''the real job'') :: error + unit \<times> cache_state",
     OF cdir reuse refl sample_cachekey jc isdir status]
  show ?thesis by auto
qed

end
